theory Spec2Isabelle
  imports Main
begin

section \<open>Python values and exceptions\<close>

text \<open>
  The renderer of \<^verbatim>\<open>tinygrad/renderer/cstyle.py\<close> turns a list of micro-operations into
  kernel source text.  Every exception the Python code can raise is a value of \<open>error\<close>;
  a function that can raise returns \<open>error + 'a\<close>, with \<open>Inl\<close> for the exception.
  \<open>AssertionError\<close>, \<open>NotImplementedError\<close> and \<open>RuntimeError\<close> carry the constant part of
  the message the source gives them (the part interpolated from the offending record is
  left out).  \<open>IllTyped\<close> is not a Python exception: it marks the few places, listed
  where they occur, at which a payload contradicts the type annotations of the source and
  the model does not follow the source any further.
\<close>

datatype error =
    AssertionError string
  | NotImplementedError string
  | RuntimeError string
  | KeyError
  | IndexError
  | TypeError
  | AttributeError
  | OverflowError
  | IllTyped

definition bindE :: "error + 'a \<Rightarrow> ('a \<Rightarrow> error + 'b) \<Rightarrow> error + 'b" where
  "bindE m f = (case m of Inl e \<Rightarrow> Inl e | Inr x \<Rightarrow> f x)"

definition py_assert :: "bool \<Rightarrow> string \<Rightarrow> error + unit" where
  "py_assert b msg = (if b then Inr () else Inl (AssertionError msg))"

text \<open>\<open>xs[i]\<close> for a list and a Python integer: a negative index counts from the end.\<close>

definition py_index :: "'a list \<Rightarrow> int \<Rightarrow> error + 'a" where
  "py_index xs i =
     (if 0 \<le> i \<and> i < int (length xs) then Inr (xs ! nat i)
      else if i < 0 \<and> - i \<le> int (length xs) then Inr (xs ! nat (int (length xs) + i))
      else Inl IndexError)"

text \<open>\<open>xs[k]\<close> for a constant index \<open>k \<ge> 0\<close>.\<close>

definition py_nth :: "'a list \<Rightarrow> nat \<Rightarrow> error + 'a" where
  "py_nth xs k = (if k < length xs then Inr (xs ! k) else Inl IndexError)"

subsection \<open>Strings\<close>

fun str_nat :: "nat \<Rightarrow> string" where
  "str_nat n =
     (if n < 10 then [''0123456789'' ! n]
      else str_nat (n div 10) @ [''0123456789'' ! (n mod 10)])"

declare str_nat.simps [simp del]

text \<open>\<open>str(i)\<close> of a Python integer.\<close>

definition str_int :: "int \<Rightarrow> string" where
  "str_int i = (if i < 0 then ''-'' @ str_nat (nat (- i)) else str_nat (nat i))"

definition startswith :: "string \<Rightarrow> string \<Rightarrow> bool" where
  "startswith s p = (take (length p) s = p)"

text \<open>\<open>sep.join(xs)\<close>.\<close>

fun join :: "string \<Rightarrow> string list \<Rightarrow> string" where
  "join sep [] = []"
| "join sep [x] = x"
| "join sep (x # y # ys) = x @ sep @ join sep (y # ys)"

text \<open>\<open>s.replace(old, new)\<close>: every non-overlapping occurrence, from the left.\<close>

function replace :: "string \<Rightarrow> string \<Rightarrow> string \<Rightarrow> string" where
  "replace s old new =
     (if old = [] then new @ concat (map (\<lambda>ch. ch # new) s)
      else if s = [] then []
      else if take (length old) s = old then new @ replace (drop (length old) s) old new
      else hd s # replace (tl s) old new)"
  by pat_completeness auto
termination
  by (relation "measure (\<lambda>(s, old, new). length s)") (auto simp: neq_Nil_conv)

declare replace.simps [simp del]

text \<open>\<open>s.lower()\<close> is applied by the source to \<open>str(bool(x))\<close> only, that is to
  \<open>True\<close> and \<open>False\<close>; \<open>bool_lower b\<close> is \<open>f"{b}".lower()\<close>.\<close>

definition bool_lower :: "bool \<Rightarrow> string" where
  "bool_lower b = (if b then ''true'' else ''false'')"

definition NL :: string where
  "NL = [CHR 0x0A]"

subsection \<open>Numbers\<close>

text \<open>
  A constant payload is a Python \<open>bool\<close>, \<open>int\<close> or \<open>float\<close>.  A float is NaN, an
  infinity with its sign, or a finite value \<open>Finite neg m e\<close> standing for
  \<open>(-1)^neg * m * 2^e\<close> (so \<open>Finite True 0 0\<close> is \<open>-0.0\<close>).
\<close>

datatype pyfloat = NaN | Inf bool | Finite bool nat int

datatype pynum = PBool bool | PInt int | PFloat pyfloat

text \<open>An \<open>int\<close> converts to a \<open>float\<close> unless it rounds to \<open>2^1024\<close> or beyond;
  \<open>math.isnan\<close> and \<open>math.isinf\<close> convert their argument first.\<close>

definition int_too_large :: "int \<Rightarrow> bool" where
  "int_too_large i = (\<bar>i\<bar> \<ge> 2 ^ 1024 - 2 ^ 970)"

definition math_isnan :: "pynum \<Rightarrow> error + bool" where
  "math_isnan x =
     (case x of
        PFloat NaN \<Rightarrow> Inr True
      | PInt i \<Rightarrow> if int_too_large i then Inl OverflowError else Inr False
      | _ \<Rightarrow> Inr False)"

definition math_isinf :: "pynum \<Rightarrow> error + bool" where
  "math_isinf x =
     (case x of
        PFloat (Inf _) \<Rightarrow> Inr True
      | PInt i \<Rightarrow> if int_too_large i then Inl OverflowError else Inr False
      | _ \<Rightarrow> Inr False)"

text \<open>\<open>x < 0\<close> and \<open>x >= 0\<close>; both are false of NaN.\<close>

definition num_negative :: "pynum \<Rightarrow> bool" where
  "num_negative x =
     (case x of
        PBool _ \<Rightarrow> False
      | PInt i \<Rightarrow> i < 0
      | PFloat NaN \<Rightarrow> False
      | PFloat (Inf neg) \<Rightarrow> neg
      | PFloat (Finite neg m _) \<Rightarrow> neg \<and> m \<noteq> 0)"

definition num_ge0 :: "pynum \<Rightarrow> bool" where
  "num_ge0 x =
     (case x of
        PBool _ \<Rightarrow> True
      | PInt i \<Rightarrow> 0 \<le> i
      | PFloat NaN \<Rightarrow> False
      | PFloat (Inf neg) \<Rightarrow> \<not> neg
      | PFloat (Finite neg m _) \<Rightarrow> \<not> (neg \<and> m \<noteq> 0))"

text \<open>\<open>int(x)\<close> truncates towards zero; it is applied to finite values only.\<close>

definition num_int :: "pynum \<Rightarrow> int" where
  "num_int x =
     (case x of
        PBool b \<Rightarrow> (if b then 1 else 0)
      | PInt i \<Rightarrow> i
      | PFloat (Finite neg m e) \<Rightarrow>
          (let a = (if 0 \<le> e then int m * 2 ^ nat e else int m div 2 ^ nat (- e))
           in if neg then - a else a)
      | PFloat _ \<Rightarrow> 0)"

definition num_bool :: "pynum \<Rightarrow> bool" where
  "num_bool x =
     (case x of
        PBool b \<Rightarrow> b
      | PInt i \<Rightarrow> i \<noteq> 0
      | PFloat (Finite _ m _) \<Rightarrow> m \<noteq> 0
      | PFloat _ \<Rightarrow> True)"

section \<open>Operation records\<close>

text \<open>
  The module imports \<open>UOps\<close>, \<open>UOp\<close>, the operator enumerations and the \<open>DType\<close> classes
  from other modules of the package.

  Modelled from the spec: the operation kinds are the closed set of section 3 (control,
  value-producing, declaration and thread-identity kinds), under the names the renderer
  dispatches on.
\<close>

datatype UOps =
    LOOP | IF | END | BARRIER | SPECIAL | DEFINE_GLOBAL | DEFINE_LOCAL | DEFINE_ACC
  | CONST_uop | ALU | CAST | LOAD | STORE | PHI | GEP | WMMA

text \<open>
  Modelled from the spec: the arithmetic and logical primitives of section 4.1 (the members
  of \<open>UnaryOps\<close>, \<open>BinaryOps\<close> and \<open>TernaryOps\<close> that the operator table maps);
  \<open>OtherOp\<close> stands for any further member of those enumerations.
\<close>

datatype op =
    NEG | EXP2 | LOG2 | SIN | SQRT
  | ADD | SUB | MUL | DIV | MAX_op | MOD | CMPLT | XOR
  | MULACC | WHERE
  | OtherOp nat

text \<open>
  Modelled from the spec: a semantic type has a name, a vector width and is a plain
  type, a pointer to a type (buffer declarations) or the image type.  The renderer reads
  \<open>name\<close> and \<open>sz\<close> and tests the class with \<open>isinstance\<close>.
\<close>

datatype dtype_class = DType | PtrDType | ImageDType

record dtype =
  name :: string
  sz :: nat
  cls :: dtype_class

text \<open>
  Modelled from the spec: \<open>==\<close> on types compares the type, not the class, so that a
  buffer's pointer type equals its element type (section 4.1: the half-precision
  preamble is injected if a buffer's element type is half-precision, which the source
  tests with \<open>dtype == dtypes.float16\<close> on the buffer's type).
\<close>

definition dtype_eq :: "dtype \<Rightarrow> dtype \<Rightarrow> bool" where
  "dtype_eq a b = (name a = name b \<and> sz a = sz b)"

text \<open>\<open>d == e\<close> where \<open>d\<close> may be \<open>None\<close>.\<close>

definition opt_dtype_eq :: "dtype option \<Rightarrow> dtype \<Rightarrow> bool" where
  "opt_dtype_eq d e = (case d of None \<Rightarrow> False | Some a \<Rightarrow> dtype_eq a e)"

text \<open>A dictionary keyed by types, as the list of its entries in the order the literal
  gives them; a later entry overrides an earlier one with an equal key.\<close>

definition dict_get :: "(dtype \<times> 'v) list \<Rightarrow> dtype \<Rightarrow> 'v option" where
  "dict_get d k =
     (case filter (\<lambda>kv. dtype_eq (fst kv) k) d of [] \<Rightarrow> None | kvs \<Rightarrow> Some (snd (last kvs)))"

text \<open>
  The payload \<open>arg\<close> of a record is untyped in the source.  The model has the values the
  renderer reads: \<open>None\<close>, an operator, a number, a string, and a tuple of payloads.
\<close>

datatype uarg =
    ArgNone
  | ArgOp op
  | ArgNum pynum
  | ArgStr string
  | ArgTuple "uarg list"

text \<open>\<open>a[k]\<close> for a constant \<open>k\<close>: tuples and strings can be subscripted.\<close>

definition subscript :: "uarg \<Rightarrow> nat \<Rightarrow> error + uarg" where
  "subscript a k =
     (case a of
        ArgTuple xs \<Rightarrow> py_nth xs k
      | ArgStr s \<Rightarrow> (if k < length s then Inr (ArgStr [s ! k]) else Inl IndexError)
      | _ \<Rightarrow> Inl TypeError)"

text \<open>Truth value of a payload (\<open>if a\<close>).\<close>

definition truthy :: "uarg \<Rightarrow> bool" where
  "truthy a =
     (case a of
        ArgNone \<Rightarrow> False
      | ArgOp _ \<Rightarrow> True
      | ArgNum n \<Rightarrow> num_bool n
      | ArgStr s \<Rightarrow> s \<noteq> []
      | ArgTuple xs \<Rightarrow> xs \<noteq> [])"

text \<open>A payload used as a list or string index: an \<open>int\<close> (or \<open>bool\<close>).\<close>

definition as_index :: "uarg \<Rightarrow> error + int" where
  "as_index a =
     (case a of
        ArgNum (PInt i) \<Rightarrow> Inr i
      | ArgNum (PBool b) \<Rightarrow> Inr (if b then 1 else 0)
      | _ \<Rightarrow> Inl TypeError)"

text \<open>
  Modelled from the spec: an operation record has a kind, an optional result type, the
  ordered list of its operands (themselves records) and a payload, and is consumed by
  identity.  \<open>uid\<close> stands for the identity of the Python object: the symbol table and
  the use-count table are keyed by the record, and two records that agree in every
  field except \<open>uid\<close> are different keys.
\<close>

datatype UOp = UOp (uid: nat) (uop: UOps) (dtype: "dtype option") (vin: "UOp list") (arg: uarg)

section \<open>The helpers the renderer imports\<close>

text \<open>
  \<open>dtypes\<close>, \<open>strip_parens\<close> and \<open>getenv\<close> come from \<^verbatim>\<open>tinygrad.helpers\<close>, which is
  not part of the sources at hand.  They are parameters of the model: a value of
  \<open>helpers\<close> fixes the type constants the renderer names, the methods \<open>vec\<close> and
  \<open>scalar\<close> of a type, the predicates \<open>dtypes.is_int\<close> and \<open>dtypes.is_float\<close>,
  \<open>strip_parens\<close> (\<open>None\<close> where it raises, which indexing into an empty string does) and
  the environment read by \<open>getenv\<close>.  \<open>float_str x\<close> is Python's \<open>f"{float(x)}"\<close> for a
  finite \<open>x\<close>, whose digits are not modelled.
\<close>

record helpers =
  dtypes_bool :: dtype
  dtypes_int :: dtype
  dtypes_int32 :: dtype
  dtypes_float :: dtype
  dtypes_float16 :: dtype
  dtypes_half :: dtype
  dtypes_uint8 :: dtype
  dtypes_uint16 :: dtype
  dtypes_uint32 :: dtype
  dtypes_uint64 :: dtype
  vec :: "dtype \<Rightarrow> nat \<Rightarrow> dtype"
  scalar :: "dtype \<Rightarrow> dtype"
  is_int :: "dtype \<Rightarrow> bool"
  is_float :: "dtype \<Rightarrow> bool"
  strip_parens :: "string \<Rightarrow> string option"
  getenv :: "string \<Rightarrow> int"
  float_str :: "pynum \<Rightarrow> string"

text \<open>Modelled from the spec: \<open>prod\<close> is the product of the local-size dimensions.\<close>

definition prod :: "int list \<Rightarrow> int" where
  "prod xs = foldr (*) xs 1"

text \<open>
  \<open>str(a)\<close> of a payload, as an f-string interpolates it.  The \<open>str\<close> of an operator
  and of a tuple are not modelled (\<open>IllTyped\<close>).
\<close>

definition py_str :: "helpers \<Rightarrow> uarg \<Rightarrow> error + string" where
  "py_str h a =
     (case a of
        ArgNone \<Rightarrow> Inr ''None''
      | ArgStr s \<Rightarrow> Inr s
      | ArgNum (PBool b) \<Rightarrow> Inr (if b then ''True'' else ''False'')
      | ArgNum (PInt i) \<Rightarrow> Inr (str_int i)
      | ArgNum (PFloat NaN) \<Rightarrow> Inr ''nan''
      | ArgNum (PFloat (Inf neg)) \<Rightarrow> Inr (if neg then ''-inf'' else ''inf'')
      | ArgNum (PFloat (Finite neg m e)) \<Rightarrow> Inr (float_str h (PFloat (Finite neg m e)))
      | _ \<Rightarrow> Inl IllTyped)"

section \<open>The target language profile\<close>

text \<open>
  \<open>CStyleLanguage\<close> is a named tuple of tokens and flags with default values; the five
  backends are subclasses that override some of them and some of the rendering methods.
  The record has the tuple's fields (the operator table \<open>code_for_op\<close> is given
  separately below); \<open>profile\<close> is the class of the instance, which selects the methods.
\<close>

datatype profile = CStyle | OpenCL | Metal | CUDA | HIP | WGSL

record CStyleLanguage =
  profile :: profile
  size_prefix :: string
  generic_var_prefix :: string
  kernel_prefix :: string
  buffer_prefix :: string
  buffer_suffix :: string
  smem_align :: string
  smem_prefix :: string
  smem_prefix_for_cast :: bool
  arg_int_prefix :: string
  barrier :: string
  xid :: "string list"
  gid :: "string list"
  lid :: "string list"
  global_max :: "int list"
  local_max :: "int list"
  extra_args :: "string list"
  float4 :: "string option"
  half_prekernel :: "string option"
  uses_vload :: bool
  external_local_bufs :: bool
  uses_ptr_arithmetic :: bool
  launch_bounds :: bool

definition CStyleLanguage_default :: CStyleLanguage where
  "CStyleLanguage_default =
     \<lparr> profile = CStyle,
       size_prefix = ''int'',
       generic_var_prefix = [],
       kernel_prefix = [],
       buffer_prefix = [],
       buffer_suffix = [],
       smem_align = [],
       smem_prefix = [],
       smem_prefix_for_cast = True,
       arg_int_prefix = ''const int'',
       barrier = [],
       xid = [],
       gid = [],
       lid = [],
       global_max = [],
       local_max = [],
       extra_args = [],
       float4 = None,
       half_prekernel = None,
       uses_vload = False,
       external_local_bufs = False,
       uses_ptr_arithmetic = False,
       launch_bounds = False \<rparr>"

definition OpenCLLanguage :: CStyleLanguage where
  "OpenCLLanguage =
     CStyleLanguage_default
     \<lparr> profile := OpenCL,
       kernel_prefix := ''__kernel '',
       buffer_prefix := ''__global '',
       smem_align := ''__attribute__ ((aligned (16))) '',
       smem_prefix := ''__local '',
       half_prekernel := Some ''#pragma OPENCL EXTENSION cl_khr_fp16 : enable'',
       barrier := ''barrier(CLK_LOCAL_MEM_FENCE);'',
       float4 := Some ''(float4)'',
       gid := map (\<lambda>i. ''get_group_id('' @ str_nat i @ '')'') [0..<3],
       lid := map (\<lambda>i. ''get_local_id('' @ str_nat i @ '')'') [0..<3],
       xid := map (\<lambda>i. ''get_global_id('' @ str_nat i @ '')'') [0..<3],
       uses_vload := True \<rparr>"

definition MetalLanguage :: CStyleLanguage where
  "MetalLanguage =
     CStyleLanguage_default
     \<lparr> profile := Metal,
       kernel_prefix := ''#include <metal_stdlib>'' @ NL @ ''using namespace metal;'' @ NL @ ''kernel '',
       buffer_prefix := ''device '',
       smem_prefix := ''threadgroup '',
       arg_int_prefix := ''constant int&'',
       barrier := ''threadgroup_barrier(mem_flags::mem_threadgroup);'',
       float4 := Some ''float4'',
       uses_ptr_arithmetic := True,
       gid := map (\<lambda>i. ''gid.'' @ [char_of (120 + i)]) [0..<3],
       lid := map (\<lambda>i. ''lid.'' @ [char_of (120 + i)]) [0..<3],
       extra_args := [''uint3 gid [[threadgroup_position_in_grid]]'',
                      ''uint3 lid [[thread_position_in_threadgroup]]''] \<rparr>"

definition CUDA_half_prekernel :: string where
  "CUDA_half_prekernel =
     NL @ ''    #include <cuda_fp16.h>'' @ NL
     @ ''    struct half4 { half x, y, z, w; };'' @ NL
     @ ''    __device__ half4 make_half4(half x, half y, half z, half w) { half4 ret; ret.x = x; ret.y = y; ret.z = z; ret.w = w; return ret; }'' @ NL
     @ ''  ''"

definition CUDALanguage :: CStyleLanguage where
  "CUDALanguage =
     CStyleLanguage_default
     \<lparr> profile := CUDA,
       kernel_prefix := ''#define INFINITY (__int_as_float(0x7f800000))'' @ NL
         @ ''#define NAN (__int_as_float(0x7fffffff))'' @ NL
         @ ''extern \"C\" __global__ '',
       smem_prefix := ''__shared__ '',
       smem_prefix_for_cast := False,
       barrier := ''__syncthreads();'',
       float4 := Some ''make_float4'',
       gid := map (\<lambda>i. ''blockIdx.'' @ [char_of (120 + i)]) [0..<3],
       lid := map (\<lambda>i. ''threadIdx.'' @ [char_of (120 + i)]) [0..<3],
       xid := map (\<lambda>i. ''(blockIdx.'' @ [char_of (120 + i)] @ ''*blockDim.'' @ [char_of (120 + i)]
                        @ ''+threadIdx.'' @ [char_of (120 + i)] @ '')'') [0..<3],
       half_prekernel := Some CUDA_half_prekernel \<rparr>"

definition HIP_kernel_prefix :: string where
  "HIP_kernel_prefix =
     ''#include <hip/hip_common.h>'' @ NL
     @ ''#define INFINITY (__builtin_inff())'' @ NL
     @ ''#define NAN (__builtin_nanf(\"\"))'' @ NL
     @ ''  typedef float float8 __attribute__((ext_vector_type(8)));'' @ NL
     @ ''  __device__ float8 make_float8(float x, float y, float z, float w, float a, float b, float c, float d) { return {x, y, z, w, a, b, c, d}; }'' @ NL
     @ ''  extern \"C\" __global__'' @ NL
     @ ''  ''"

definition HIP_half_prekernel :: string where
  "HIP_half_prekernel =
     ''#include <hip/hip_fp16.h>'' @ NL @ NL
     @ ''typedef union { struct { half x, y, z, w; } __attribute__((aligned(8))); half data[4]; } half4;'' @ NL
     @ ''__device__ half4 make_half4(half x, half y, half z, half w) { return {x, y, z, w}; }'' @ NL
     @ ''typedef union { struct { half x, y, z, w, a, b, c, d; } __attribute__((aligned(16))); half data[8]; } half8;'' @ NL
     @ ''__device__ half8 make_half8(half x, half y, half z, half w, half a, half b, half c, half d) { return {x, y, z, w, a, b, c, d}; }'' @ NL
     @ '' typedef _Float16 half16 __attribute__((ext_vector_type(16)));'' @ NL
     @ ''__device__ half16 make_half16(half x, half y, half z, half w, half a, half b, half c, half d,'' @ NL
     @ ''                              half e, half f, half g, half h, half i, half j, half k, half l) {'' @ NL
     @ ''                                return {x, y, z, w, a, b, c, d, e, f, g, h, i, j, k, l}; }'' @ NL
     @ ''  ''"

definition HIPLanguage :: CStyleLanguage where
  "HIPLanguage =
     CStyleLanguage_default
     \<lparr> profile := HIP,
       kernel_prefix := HIP_kernel_prefix,
       launch_bounds := True,
       smem_prefix := ''__shared__ '',
       smem_prefix_for_cast := False,
       barrier := ''__syncthreads();'',
       float4 := Some ''make_float4'',
       uses_ptr_arithmetic := True,
       half_prekernel := Some HIP_half_prekernel,
       gid := map (\<lambda>i. ''blockIdx.'' @ [char_of (120 + i)]) [0..<3],
       lid := map (\<lambda>i. ''threadIdx.'' @ [char_of (120 + i)]) [0..<3],
       xid := map (\<lambda>i. ''(blockIdx.'' @ [char_of (120 + i)] @ ''*blockDim.'' @ [char_of (120 + i)]
                        @ ''+threadIdx.'' @ [char_of (120 + i)] @ '')'') [0..<3] \<rparr>"

definition WGSLLanguage :: CStyleLanguage where
  "WGSLLanguage =
     CStyleLanguage_default
     \<lparr> profile := WGSL,
       gid := map (\<lambda>x. ''i32(gindex.'' @ [''xyz'' ! x] @ '')'') [0..<3],
       lid := map (\<lambda>x. ''i32(lindex.'' @ [''xyz'' ! x] @ '')'') [0..<3],
       size_prefix := ''let'',
       barrier := ''workgroupBarrier();'',
       generic_var_prefix := ''var '',
       external_local_bufs := True \<rparr>"

text \<open>The class attribute \<open>type_map\<close> of the OpenCL and of the WGSL profile.\<close>

definition OpenCL_type_map :: "helpers \<Rightarrow> (dtype \<times> string) list" where
  "OpenCL_type_map h =
     [(dtypes_uint8 h, ''uchar''), (dtypes_uint32 h, ''uint''),
      (dtypes_uint16 h, ''ushort''), (dtypes_uint64 h, ''ulong'')]"

definition WGSL_type_map :: "helpers \<Rightarrow> (dtype \<times> string) list" where
  "WGSL_type_map h =
     [(dtypes_float h, ''f32''), (dtypes_half h, ''f16''), (dtypes_int32 h, ''i32''),
      (dtypes_uint32 h, ''u32''), (dtypes_bool h, ''f32'')]"

subsection \<open>The operator table\<close>

text \<open>
  \<open>code_for_op\<close> maps an operator to a function of the rendered operands and the result
  type.  The source calls it with the operands as positional arguments; a call with
  another number of operands than the function has parameters is a \<open>TypeError\<close>.
\<close>

type_synonym op_render = "string list \<Rightarrow> dtype \<Rightarrow> error + string"

definition unary :: "(string \<Rightarrow> dtype \<Rightarrow> string) \<Rightarrow> op_render" where
  "unary f xs dt = (case xs of [x] \<Rightarrow> Inr (f x dt) | _ \<Rightarrow> Inl TypeError)"

definition binary :: "(string \<Rightarrow> string \<Rightarrow> dtype \<Rightarrow> string) \<Rightarrow> op_render" where
  "binary f xs dt = (case xs of [a, b] \<Rightarrow> Inr (f a b dt) | _ \<Rightarrow> Inl TypeError)"

definition ternary :: "(string \<Rightarrow> string \<Rightarrow> string \<Rightarrow> dtype \<Rightarrow> string) \<Rightarrow> op_render" where
  "ternary f xs dt = (case xs of [a, b, c] \<Rightarrow> Inr (f a b c dt) | _ \<Rightarrow> Inl TypeError)"

definition CStyle_code_for_op :: "helpers \<Rightarrow> op \<rightharpoonup> op_render" where
  "CStyle_code_for_op h =
     [ NEG \<mapsto> unary (\<lambda>x dt. if \<not> dtype_eq dt (dtypes_bool h) then ''(-'' @ x @ '')''
                             else ''(!'' @ x @ '')''),
       EXP2 \<mapsto> unary (\<lambda>x dt. ''exp2('' @ x @ '')''),
       LOG2 \<mapsto> unary (\<lambda>x dt. ''log2('' @ x @ '')''),
       SIN \<mapsto> unary (\<lambda>x dt. ''sin('' @ x @ '')''),
       SQRT \<mapsto> unary (\<lambda>x dt. ''sqrt('' @ x @ '')''),
       ADD \<mapsto> binary (\<lambda>a b dt. ''('' @ a @ ''+'' @ b @ '')''),
       SUB \<mapsto> binary (\<lambda>a b dt. ''('' @ a @ ''-'' @ b @ '')''),
       MUL \<mapsto> binary (\<lambda>a b dt. ''('' @ a @ ''*'' @ b @ '')''),
       DIV \<mapsto> binary (\<lambda>a b dt. ''('' @ a @ ''/'' @ b @ '')''),
       MAX_op \<mapsto> binary (\<lambda>a b dt. ''max('' @ a @ '','' @ b @ '')''),
       MOD \<mapsto> binary (\<lambda>a b dt. ''('' @ a @ ''%'' @ b @ '')''),
       CMPLT \<mapsto> binary (\<lambda>a b dt. ''('' @ a @ ''<'' @ b @ '')''),
       XOR \<mapsto> binary (\<lambda>a b dt. ''('' @ a @ ''^'' @ b @ '')''),
       MULACC \<mapsto> ternary (\<lambda>a b c dt. ''(('' @ a @ ''*'' @ b @ '')+'' @ c @ '')''),
       WHERE \<mapsto> ternary (\<lambda>a b c dt. ''('' @ a @ ''?'' @ b @ '':'' @ c @ '')'') ]"

definition code_for_op_half :: "helpers \<Rightarrow> op \<rightharpoonup> op_render" where
  "code_for_op_half h =
     [ MAX_op \<mapsto> binary (\<lambda>a b dt. if \<not> dtype_eq dt (dtypes_half h) then ''max('' @ a @ '','' @ b @ '')''
                               else ''__hmax('' @ a @ '','' @ b @ '')''),
       SQRT \<mapsto> unary (\<lambda>x dt. if \<not> dtype_eq dt (dtypes_half h) then ''sqrt('' @ x @ '')''
                              else ''hsqrt('' @ x @ '')''),
       SIN \<mapsto> unary (\<lambda>x dt. if \<not> dtype_eq dt (dtypes_half h) then ''sin('' @ x @ '')''
                             else ''hsin('' @ x @ '')''),
       LOG2 \<mapsto> unary (\<lambda>x dt. if \<not> dtype_eq dt (dtypes_half h) then ''log2('' @ x @ '')''
                              else ''hlog2('' @ x @ '')''),
       EXP2 \<mapsto> unary (\<lambda>x dt. if \<not> dtype_eq dt (dtypes_half h) then ''exp2('' @ x @ '')''
                              else ''hexp2('' @ x @ '')'') ]"

definition code_for_op :: "helpers \<Rightarrow> CStyleLanguage \<Rightarrow> op \<rightharpoonup> op_render" where
  "code_for_op h lang =
     (case profile lang of
        CStyle \<Rightarrow> CStyle_code_for_op h
      | OpenCL \<Rightarrow> (CStyle_code_for_op h)
          (MULACC \<mapsto> ternary (\<lambda>a b c dt. ''mad('' @ a @ '','' @ b @ '','' @ c @ '')''))
      | Metal \<Rightarrow> CStyle_code_for_op h
      | CUDA \<Rightarrow> CStyle_code_for_op h ++ code_for_op_half h
      | HIP \<Rightarrow> CStyle_code_for_op h ++ code_for_op_half h
      | WGSL \<Rightarrow> (CStyle_code_for_op h)
          (CMPLT \<mapsto> binary (\<lambda>x y dt. ''f32('' @ x @ ''<'' @ y @ '')''),
           MULACC \<mapsto> ternary (\<lambda>x y z dt. ''fma('' @ x @ '','' @ y @ '','' @ z @ '')''),
           WHERE \<mapsto> ternary (\<lambda>a b c dt. ''select('' @ c @ '','' @ b @ '',bool('' @ a @ ''))'')))"

subsection \<open>Casts and constants\<close>

text \<open>
  \<open>render_cast\<close> of the base class.  With \<open>bitcast\<close> it reads the first operand only; a
  single operand is a type-name cast; otherwise the number of operands must be the
  width of the target type and the profile must have a vector constructor.
\<close>

definition CStyle_render_cast :: "CStyleLanguage \<Rightarrow> string list \<Rightarrow> dtype \<Rightarrow> bool \<Rightarrow> error + string" where
  "CStyle_render_cast lang x var_dtype bitcast =
     (if bitcast then
        bindE (py_nth x 0) (\<lambda>x0.
        Inr (''(*(('' @ buffer_prefix lang @ name var_dtype @ ''*)&'' @ x0 @ ''))''))
      else if length x = 1 then Inr (''('' @ name var_dtype @ '')('' @ hd x @ '')'')
      else
        bindE (py_assert (length x = sz var_dtype) ''cast is wrong size'') (\<lambda>_.
        case float4 lang of
          None \<Rightarrow> Inl (AssertionError ''vectorized cast is not supported on this platform'')
        | Some f4 \<Rightarrow> Inr (replace f4 ''float4'' (name var_dtype) @ ''('' @ join '','' x @ '')'')))"

definition OpenCL_render_cast ::
  "helpers \<Rightarrow> CStyleLanguage \<Rightarrow> string list \<Rightarrow> dtype \<Rightarrow> bool \<Rightarrow> error + string" where
  "OpenCL_render_cast h lang x var_dtype bitcast =
     (if bitcast then
        bindE (py_nth x 0) (\<lambda>x0.
        Inr (''as_'' @ (case dict_get (OpenCL_type_map h) var_dtype of
                          Some t \<Rightarrow> (if t \<noteq> [] then t else name var_dtype)
                        | None \<Rightarrow> name var_dtype)
             @ ''('' @ x0 @ '')''))
      else CStyle_render_cast lang x var_dtype False)"

definition Metal_render_cast :: "CStyleLanguage \<Rightarrow> string list \<Rightarrow> dtype \<Rightarrow> bool \<Rightarrow> error + string" where
  "Metal_render_cast lang x var_dtype bitcast =
     (if bitcast then
        bindE (py_nth x 0) (\<lambda>x0. Inr (''as_type<'' @ name var_dtype @ ''>('' @ x0 @ '')''))
      else CStyle_render_cast lang x var_dtype False)"

definition WGSL_render_cast ::
  "helpers \<Rightarrow> CStyleLanguage \<Rightarrow> string list \<Rightarrow> dtype \<Rightarrow> bool \<Rightarrow> error + string" where
  "WGSL_render_cast h lang x var_dtype bitcast =
     (case dict_get (WGSL_type_map h) var_dtype of
        None \<Rightarrow> Inl KeyError
      | Some t \<Rightarrow>
          if t \<noteq> [] then
            bindE (py_nth x 0) (\<lambda>x0.
            Inr (if bitcast then ''bitcast<'' @ t @ ''>('' @ x0 @ '')'' else t @ ''('' @ x0 @ '')''))
          else Inl (NotImplementedError ''no cast for''))"

text \<open>\<open>lang.render_cast(x, var_dtype, bitcast)\<close>: the method of the instance's class.\<close>

definition render_cast ::
  "helpers \<Rightarrow> CStyleLanguage \<Rightarrow> string list \<Rightarrow> dtype \<Rightarrow> bool \<Rightarrow> error + string" where
  "render_cast h lang x var_dtype bitcast =
     (case profile lang of
        OpenCL \<Rightarrow> OpenCL_render_cast h lang x var_dtype bitcast
      | Metal \<Rightarrow> Metal_render_cast lang x var_dtype bitcast
      | WGSL \<Rightarrow> WGSL_render_cast h lang x var_dtype bitcast
      | _ \<Rightarrow> CStyle_render_cast lang x var_dtype bitcast)"

text \<open>
  \<open>render_const\<close> of the base class.  The type may be \<open>None\<close> (a \<open>CONST\<close> record
  without a result type): reading \<open>var_dtype.sz\<close> then raises.
\<close>

definition CStyle_render_const ::
  "helpers \<Rightarrow> CStyleLanguage \<Rightarrow> pynum \<Rightarrow> dtype option \<Rightarrow> error + string" where
  "CStyle_render_const h lang x var_dtype =
     bindE (math_isnan x) (\<lambda>isnan.
     bindE (if isnan then Inr ''NAN''
            else bindE (math_isinf x) (\<lambda>isinf.
              if isinf then Inr ((if num_negative x then ''-'' else []) @ ''INFINITY'')
              else (case var_dtype of
                      None \<Rightarrow> Inl AttributeError
                    | Some dt \<Rightarrow>
                        Inr (if is_float h dt then float_str h x @ ''f''
                             else if is_int h dt then str_int (num_int x)
                             else bool_lower (num_bool x))))) (\<lambda>val.
     case var_dtype of
       None \<Rightarrow> Inl AttributeError
     | Some dt \<Rightarrow>
         if sz dt > 1 \<or> \<not> list_ex (dtype_eq dt) [dtypes_float h, dtypes_int h, dtypes_bool h]
         then render_cast h lang (replicate (sz dt) val) dt False
         else Inr val))"

definition WGSL_render_const ::
  "helpers \<Rightarrow> CStyleLanguage \<Rightarrow> pynum \<Rightarrow> dtype option \<Rightarrow> error + string" where
  "WGSL_render_const h lang x var_dtype =
     bindE (math_isnan x) (\<lambda>isnan.
     if isnan then Inr ''nan()''
     else bindE (math_isinf x) (\<lambda>isinf.
       if isinf then Inr ((if num_negative x then ''-'' else []) @ ''inf(1.0)'')
       else bindE (CStyle_render_const h lang x var_dtype) (\<lambda>s. Inr (''('' @ s @ '')''))))"

definition render_const ::
  "helpers \<Rightarrow> CStyleLanguage \<Rightarrow> pynum \<Rightarrow> dtype option \<Rightarrow> error + string" where
  "render_const h lang x var_dtype =
     (case profile lang of
        WGSL \<Rightarrow> WGSL_render_const h lang x var_dtype
      | _ \<Rightarrow> CStyle_render_const h lang x var_dtype)"

subsection \<open>Loads, stores and control constructs\<close>

definition isinstance :: "dtype \<Rightarrow> dtype_class \<Rightarrow> bool" where
  "isinstance d k = (cls d = k)"

text \<open>
  \<open>render_load\<close> is not overridden by any profile.  The type of the buffer is the result
  type of the record that declares it and may be \<open>None\<close>.
\<close>

definition render_load ::
  "helpers \<Rightarrow> CStyleLanguage \<Rightarrow> dtype \<Rightarrow> string \<Rightarrow> dtype option \<Rightarrow> string \<Rightarrow> bool \<Rightarrow> error + string" where
  "render_load h lang output_dtype buf_name buf_dtype idx local =
     (if (case buf_dtype of None \<Rightarrow> False | Some b \<Rightarrow> isinstance b ImageDType) then
        bindE (py_assert (dtype_eq output_dtype (vec h (dtypes_float h) 4)) ''images must be float4'') (\<lambda>_.
        Inr (''read_imagef('' @ buf_name @ '', smp, '' @ idx @ '')''))
      else
        bindE (if uses_vload lang then
                 (case buf_dtype of
                    None \<Rightarrow> Inl AttributeError
                  | Some b \<Rightarrow> Inr (dtype_eq (scalar h b) (dtypes_float16 h)
                                    \<and> \<not> dtype_eq (scalar h output_dtype) (dtypes_float16 h)))
               else Inr False) (\<lambda>vload.
        if vload then
          Inr (''vload_half'' @ (if sz output_dtype = 1 then [] else str_nat (sz output_dtype))
               @ ''(0, '' @ buf_name @ ''+'' @ idx @ '')'')
        else
          bindE (if sz output_dtype > 1 then
                   (case buf_dtype of
                      None \<Rightarrow> Inl AttributeError
                    | Some b \<Rightarrow>
                        Inr (''*(('' @ (if local \<and> smem_prefix_for_cast lang then smem_prefix lang
                                        else buffer_prefix lang)
                             @ name b @ str_nat (sz output_dtype) @ ''*)('' @ buf_name @ ''+'' @ idx @ ''))''))
                 else Inr (if uses_ptr_arithmetic lang then ''*('' @ buf_name @ ''+'' @ idx @ '')''
                           else buf_name @ ''['' @ idx @ '']'')) (\<lambda>out_val.
          if \<not> opt_dtype_eq buf_dtype output_dtype
          then render_cast h lang [out_val] output_dtype False
          else Inr out_val)))"

definition CStyle_render_local :: "helpers \<Rightarrow> CStyleLanguage \<Rightarrow> uarg \<Rightarrow> uarg \<Rightarrow> error + string" where
  "CStyle_render_local h lang nm size' =
     bindE (py_str h nm) (\<lambda>n. bindE (py_str h size') (\<lambda>s.
     Inr (smem_align lang @ smem_prefix lang @ ''float '' @ n @ ''['' @ s @ ''];'')))"

definition WGSL_render_local :: "helpers \<Rightarrow> CStyleLanguage \<Rightarrow> uarg \<Rightarrow> uarg \<Rightarrow> error + string" where
  "WGSL_render_local h lang nm size' =
     bindE (py_str h nm) (\<lambda>n. bindE (py_str h size') (\<lambda>s.
     Inr (''var<workgroup> '' @ n @ '': array<f32,'' @ s @ ''>;'')))"

definition render_local :: "helpers \<Rightarrow> CStyleLanguage \<Rightarrow> uarg \<Rightarrow> uarg \<Rightarrow> error + string" where
  "render_local h lang nm size' =
     (case profile lang of
        WGSL \<Rightarrow> WGSL_render_local h lang nm size'
      | _ \<Rightarrow> CStyle_render_local h lang nm size')"

definition render_for :: "CStyleLanguage \<Rightarrow> string \<Rightarrow> string \<Rightarrow> string \<Rightarrow> string" where
  "render_for lang expr lo hi =
     ''for ('' @ (if generic_var_prefix lang \<noteq> [] then generic_var_prefix lang else ''int'')
     @ '' '' @ expr @ '' = '' @ lo @ ''; '' @ expr @ '' < '' @ hi @ ''; '' @ expr @ ''++) {''"

definition render_if :: "CStyleLanguage \<Rightarrow> string \<Rightarrow> string" where
  "render_if lang cond =
     (case profile lang of
        WGSL \<Rightarrow> ''if (bool('' @ cond @ '')) {''
      | _ \<Rightarrow> ''if ('' @ cond @ '') {'')"

definition render_conditional :: "CStyleLanguage \<Rightarrow> string \<Rightarrow> string \<Rightarrow> string \<Rightarrow> string" where
  "render_conditional lang cond x y =
     (case profile lang of
        WGSL \<Rightarrow> ''select('' @ y @ '', '' @ x @ '', bool('' @ cond @ ''))''
      | _ \<Rightarrow> ''('' @ cond @ '')?('' @ x @ ''):'' @ y)"

definition CStyle_render_store ::
  "helpers \<Rightarrow> CStyleLanguage \<Rightarrow> string \<Rightarrow> dtype \<Rightarrow> string \<Rightarrow> dtype \<Rightarrow> string \<Rightarrow> bool \<Rightarrow> error + string" where
  "CStyle_render_store h lang buf_name buf_dtype var_name var_dtype idx local =
     (if isinstance buf_dtype ImageDType then
        bindE (py_assert (dtype_eq var_dtype (vec h (dtypes_float h) 4)) ''images must be float4'') (\<lambda>_.
        Inr (''write_imagef('' @ buf_name @ '', '' @ idx @ '', '' @ var_name @ '');''))
      else if uses_vload lang \<and> dtype_eq (scalar h buf_dtype) (dtypes_float16 h)
              \<and> \<not> dtype_eq (scalar h var_dtype) (dtypes_float16 h) then
        Inr (''vstore_half'' @ (if sz var_dtype = 1 then [] else str_nat (sz var_dtype))
             @ ''('' @ var_name @ '', 0, '' @ buf_name @ ''+'' @ idx @ '');'')
      else if sz var_dtype > 1 then
        Inr (''*(('' @ (if local \<and> smem_prefix_for_cast lang then smem_prefix lang else buffer_prefix lang)
             @ name buf_dtype @ str_nat (sz var_dtype) @ ''*)('' @ buf_name @ ''+'' @ idx @ '')) = (''
             @ name buf_dtype @ str_nat (sz var_dtype) @ '')'' @ var_name @ '';'')
      else Inr (if uses_ptr_arithmetic lang then ''*('' @ buf_name @ ''+'' @ idx @ '') = '' @ var_name @ '';''
                else buf_name @ ''['' @ idx @ ''] = '' @ var_name @ '';''))"

definition WGSL_render_store ::
  "helpers \<Rightarrow> CStyleLanguage \<Rightarrow> string \<Rightarrow> dtype \<Rightarrow> string \<Rightarrow> dtype \<Rightarrow> string \<Rightarrow> bool \<Rightarrow> error + string" where
  "WGSL_render_store h lang buf_name buf_dtype var_name var_dtype idx local =
     bindE (if \<not> dtype_eq var_dtype buf_dtype then render_cast h lang [var_name] buf_dtype False
            else Inr var_name) (\<lambda>v.
     Inr (buf_name @ ''['' @ idx @ ''] = '' @ v @ '';''))"

definition render_store ::
  "helpers \<Rightarrow> CStyleLanguage \<Rightarrow> string \<Rightarrow> dtype \<Rightarrow> string \<Rightarrow> dtype \<Rightarrow> string \<Rightarrow> bool \<Rightarrow> error + string" where
  "render_store h lang buf_name buf_dtype var_name var_dtype idx local =
     (case profile lang of
        WGSL \<Rightarrow> WGSL_render_store h lang buf_name buf_dtype var_name var_dtype idx local
      | _ \<Rightarrow> CStyle_render_store h lang buf_name buf_dtype var_name var_dtype idx local)"

subsection \<open>Assembling the kernel\<close>

fun mapE :: "('a \<Rightarrow> error + 'b) \<Rightarrow> 'a list \<Rightarrow> error + 'b list" where
  "mapE f [] = Inr []"
| "mapE f (x # xs) = bindE (f x) (\<lambda>y. bindE (mapE f xs) (\<lambda>ys. Inr (y # ys)))"

definition CStyle_render_kernel ::
  "helpers \<Rightarrow> CStyleLanguage \<Rightarrow> string \<Rightarrow> string list \<Rightarrow> (string \<times> dtype) list \<Rightarrow> int list
     \<Rightarrow> string list \<Rightarrow> error + string" where
  "CStyle_render_kernel h lang function_name kernel_lines bufs_list local_sizes prekernel_lines =
     (let tmp = (if list_ex (\<lambda>nd. isinstance (snd nd) ImageDType) bufs_list
                 then ''const sampler_t smp = CLK_NORMALIZED_COORDS_FALSE | CLK_ADDRESS_CLAMP | CLK_FILTER_NEAREST;'' @ NL
                 else []);
          buftypes = map (\<lambda>(i, nm, dt).
              (nm, if startswith (name dt) ''image''
                   then (if i > 0 then ''read_only'' else ''write_only'') @ '' image2d_t''
                   else if isinstance dt PtrDType
                   then (if i > 0 then ''const '' else []) @ buffer_prefix lang @ name dt @ ''*'' @ buffer_suffix lang
                   else if dtype_eq dt (dtypes_int h) then arg_int_prefix lang
                   else ''None''))
            (enumerate 0 bufs_list);
          prg = kernel_prefix lang @ ''void ''
                @ (if launch_bounds lang then ''__launch_bounds__ ('' @ str_int (prod local_sizes) @ '', 1) '' else [])
                @ function_name @ ''(''
                @ join '', '' (map (\<lambda>(nm, t). t @ '' '' @ nm) buftypes @ extra_args lang)
                @ '') {'' @ NL @ tmp @ join NL kernel_lines @ NL @ ''}''
      in Inr (case half_prekernel lang of
                Some hp \<Rightarrow> (if hp \<noteq> [] \<and> list_ex (\<lambda>nd. dtype_eq (snd nd) (dtypes_float16 h)) bufs_list
                            then hp @ NL @ prg else prg)
              | None \<Rightarrow> prg))"

definition WGSL_render_kernel ::
  "helpers \<Rightarrow> CStyleLanguage \<Rightarrow> string \<Rightarrow> string list \<Rightarrow> (string \<times> dtype) list \<Rightarrow> int list
     \<Rightarrow> string list \<Rightarrow> error + string" where
  "WGSL_render_kernel h lang function_name kernel_lines bufs_list local_sizes prekernel_lines =
     (let local_sizes' = (if local_sizes \<noteq> [] then rev local_sizes else [1]) in
      bindE (mapE (\<lambda>(i, nm, dt).
               bindE (if isinstance dt PtrDType then
                        (case dict_get (WGSL_type_map h) dt of
                           None \<Rightarrow> Inl KeyError
                         | Some t \<Rightarrow> Inr (''array<'' @ t @ ''>''))
                      else Inr ''i32'') (\<lambda>ty.
               Inr (''@group(0) @binding('' @ str_nat i @ '') ''
                    @ (if isinstance dt PtrDType then ''var<storage,read_write>'' else ''var<uniform>'')
                    @ '' '' @ nm @ '': '' @ ty @ '';'')))
             (enumerate 0 bufs_list)) (\<lambda>bindings.
      Inr (''fn nan() -> f32 { let bits = 0xffffffffu; return bitcast<f32>(bits); }'' @ NL
           @ ''fn inf(a: f32) -> f32 { return a/0.0; }'' @ NL
           @ join NL (prekernel_lines @ bindings)
           @ NL @ ''@compute @workgroup_size('' @ join '','' (map str_int local_sizes') @ '') fn ''
           @ function_name
           @ ''(@builtin(workgroup_id) gindex: vec3<u32>, @builtin(local_invocation_id) lindex: vec3<u32>) {''
           @ NL @ join NL kernel_lines @ NL @ ''}'')))"

definition render_kernel ::
  "helpers \<Rightarrow> CStyleLanguage \<Rightarrow> string \<Rightarrow> string list \<Rightarrow> (string \<times> dtype) list \<Rightarrow> int list
     \<Rightarrow> string list \<Rightarrow> error + string" where
  "render_kernel h lang function_name kernel_lines bufs_list local_sizes prekernel_lines =
     (case profile lang of
        WGSL \<Rightarrow> WGSL_render_kernel h lang function_name kernel_lines bufs_list local_sizes prekernel_lines
      | _ \<Rightarrow> CStyle_render_kernel h lang function_name kernel_lines bufs_list local_sizes prekernel_lines)"

section \<open>The renderer engine\<close>

text \<open>
  \<open>uops_to_cstyle\<close> keeps its working data in local variables that its inner functions
  \<open>kk\<close> and \<open>ssa\<close> update.  They are the fields of \<open>state\<close>: the lines of the kernel body,
  the hoisted declarations, the buffer signature, the local sizes, the nesting depth, the
  name counters \<open>c\<close> (a \<open>defaultdict(int)\<close>) and the symbol table \<open>r\<close>.
\<close>

record state =
  kernel :: "string list"
  prekernel :: "string list"
  bufs :: "(string \<times> dtype) list"
  local_size :: "int list"
  depth :: int
  c :: "string \<Rightarrow> nat"
  r :: "UOp \<rightharpoonup> string"

definition init_state :: state where
  "init_state =
     \<lparr> kernel = [], prekernel = [], bufs = [], local_size = [], depth = 1,
       c = (\<lambda>_. 0), r = Map.empty \<rparr>"

text \<open>\<open>"  "*depth\<close>: the empty string when \<open>depth\<close> is not positive.\<close>

definition indent :: "int \<Rightarrow> string" where
  "indent d = concat (replicate (nat d) ''  '')"

definition kk :: "string \<Rightarrow> state \<Rightarrow> state" where
  "kk s st = st\<lparr>kernel := kernel st @ [indent (depth st) @ s]\<rparr>"

definition ssa :: "UOp \<Rightarrow> string \<Rightarrow> state \<Rightarrow> string \<times> state" where
  "ssa u prefix st =
     (let nm = prefix @ str_nat (c st prefix)
      in (nm, st\<lparr>r := (r st)(u \<mapsto> nm), c := (c st)(prefix := c st prefix + 1)\<rparr>))"

text \<open>\<open>r[x]\<close> and \<open>r[vin[k]]\<close>.\<close>

definition lookup :: "state \<Rightarrow> UOp \<Rightarrow> error + string" where
  "lookup st x = (case r st x of None \<Rightarrow> Inl KeyError | Some s \<Rightarrow> Inr s)"

definition r_vin :: "state \<Rightarrow> UOp \<Rightarrow> nat \<Rightarrow> error + string" where
  "r_vin st u k = bindE (py_nth (vin u) k) (lookup st)"

text \<open>\<open>strip_parens(s)\<close>, which raises when the helper gives no result.\<close>

definition py_strip_parens :: "helpers \<Rightarrow> string \<Rightarrow> error + string" where
  "py_strip_parens h s = (case strip_parens h s of None \<Rightarrow> Inl IndexError | Some t \<Rightarrow> Inr t)"

text \<open>\<open>lang.generic_var_prefix if lang.generic_var_prefix else dtype.name\<close>.\<close>

definition var_prefix :: "CStyleLanguage \<Rightarrow> dtype \<Rightarrow> string" where
  "var_prefix lang dt = (if generic_var_prefix lang \<noteq> [] then generic_var_prefix lang else name dt)"

text \<open>\<open>child_count = Counter(v for ru in uops for v in ru.vin)\<close>.\<close>

definition child_count :: "UOp list \<Rightarrow> UOp \<Rightarrow> nat" where
  "child_count uops u = count_list (concat (map vin uops)) u"

subsection \<open>One branch of the dispatch for each kind\<close>

text \<open>
  Each branch takes the state before the record and returns the state after it, or the
  exception.  An exception leaves \<open>uops_to_cstyle\<close>, so nothing of the state survives it;
  where a branch reads several operands before it emits several lines, the model reads
  them first, in the order of the source.
\<close>

definition render_LOOP :: "CStyleLanguage \<Rightarrow> UOp \<Rightarrow> state \<Rightarrow> error + state" where
  "render_LOOP lang u st =
     (let (nm, st1) = ssa u ''ridx'' st in
      bindE (r_vin st1 u 0) (\<lambda>lo.
      bindE (r_vin st1 u 1) (\<lambda>hi.
      Inr ((kk (render_for lang nm lo hi) st1)\<lparr>depth := depth st1 + 1\<rparr>))))"

definition render_IF :: "CStyleLanguage \<Rightarrow> UOp \<Rightarrow> state \<Rightarrow> error + state" where
  "render_IF lang u st =
     bindE (r_vin st u 0) (\<lambda>cond.
     Inr ((kk (render_if lang cond) st)\<lparr>depth := depth st + 1\<rparr>))"

definition render_BARRIER :: "CStyleLanguage \<Rightarrow> UOp \<Rightarrow> state \<Rightarrow> error + state" where
  "render_BARRIER lang u st = Inr (kk (barrier lang) st)"

definition render_END :: "CStyleLanguage \<Rightarrow> UOp \<Rightarrow> state \<Rightarrow> error + state" where
  "render_END lang u st = Inr (kk ''}'' (st\<lparr>depth := depth st - 1\<rparr>))"

definition render_WMMA :: "helpers \<Rightarrow> CStyleLanguage \<Rightarrow> UOp \<Rightarrow> state \<Rightarrow> error + state" where
  "render_WMMA h lang u st =
     bindE (subscript (arg u) 0) (\<lambda>tag.
     if tag = ArgStr ''METAL'' then
       (case dtype u of
          None \<Rightarrow> Inl (AssertionError ''output dtype of METAL TC is _float2'')
        | Some dt \<Rightarrow>
            bindE (py_assert (dtype_eq dt (vec h (dtypes_float h) 2))
                     ''output dtype of METAL TC is _float2'') (\<lambda>_.
            let (output, st1) = ssa u ''wmma'' st in
            bindE (r_vin st1 u 0) (\<lambda>v0. bindE (r_vin st1 u 1) (\<lambda>v1.
            bindE (r_vin st1 u 2) (\<lambda>v2. bindE (r_vin st1 u 3) (\<lambda>v3.
            bindE (r_vin st1 u 4) (\<lambda>v4. bindE (r_vin st1 u 5) (\<lambda>v5.
            Inr (kk (output @ ''.x = c.thread_elements()[0]; '' @ output @ ''.y = c.thread_elements()[1]; }'')
                (kk ''simdgroup_multiply_accumulate(c, a, b, c);''
                (kk (''c.thread_elements()[0] = '' @ v4 @ ''; c.thread_elements()[1] = '' @ v5 @ '';'')
                (kk (''b.thread_elements()[0] = '' @ v2 @ ''; b.thread_elements()[1] = '' @ v3 @ '';'')
                (kk (''a.thread_elements()[0] = '' @ v0 @ ''; a.thread_elements()[1] = '' @ v1 @ '';'')
                (kk ''{ simdgroup_float8x8 a,b,c;''
                (kk (var_prefix lang dt @ '' '' @ output @ '';'') st1)))))))))))))))
     else if tag = ArgStr ''HIP'' then
       (case dtype u of
          None \<Rightarrow> Inl (AssertionError ''output dtype of HIP TC is _float8'')
        | Some dt \<Rightarrow>
            bindE (py_assert (dtype_eq dt (vec h (dtypes_float h) 8))
                     ''output dtype of HIP TC is _float8'') (\<lambda>_.
            let (output, st1) = ssa u ''wmma'' st in
            bindE (r_vin st1 u 0) (\<lambda>v0. bindE (r_vin st1 u 1) (\<lambda>v1.
            bindE (r_vin st1 u 2) (\<lambda>v2.
            Inr (kk (var_prefix lang dt @ '' '' @ output
                     @ '' = __builtin_amdgcn_wmma_f32_16x16x16_f16_w32('' @ v0 @ '', '' @ v1 @ '', '' @ v2 @ '');'')
                   st1))))))
     else Inl (NotImplementedError ''WMMA not implemented for''))"

text \<open>
  The \<open>ALU\<close> branch: \<open>ALU_val\<close> is the expression \<open>val\<close>, \<open>inlines\<close> the condition
  under which the symbol table entry is bound to it.
\<close>

definition strips_parens :: "UOp \<Rightarrow> UOp \<Rightarrow> bool" where
  "strips_parens u v0 =
     (uop v0 = ALU \<and> arg v0 = arg u \<and> arg u \<in> {ArgOp ADD, ArgOp SUB, ArgOp MUL, ArgOp XOR})"

definition inlines :: "helpers \<Rightarrow> nat \<Rightarrow> dtype \<Rightarrow> uarg \<Rightarrow> bool" where
  "inlines h n dt args =
     ((n \<le> 1 \<or> is_int h dt) \<and> args \<noteq> ArgOp MAX_op \<and> \<not> (getenv h ''EXPAND_SSA'' \<noteq> 0))"

definition ALU_val :: "helpers \<Rightarrow> CStyleLanguage \<Rightarrow> UOp \<Rightarrow> dtype \<Rightarrow> state \<Rightarrow> error + string" where
  "ALU_val h lang u dt st =
     bindE (py_nth (vin u) 0) (\<lambda>v0.
     bindE (case arg u of
              ArgOp opr \<Rightarrow> (case code_for_op h lang opr of None \<Rightarrow> Inl KeyError | Some f \<Rightarrow> Inr f)
            | _ \<Rightarrow> Inl KeyError) (\<lambda>f.
     bindE (mapE (lookup st) (vin u)) (\<lambda>xs.
     bindE (if strips_parens u v0
            then bindE (py_strip_parens h (hd xs)) (\<lambda>x0. Inr (x0 # tl xs))
            else Inr xs) (\<lambda>operands.
     f operands dt))))"

definition render_ALU ::
  "helpers \<Rightarrow> CStyleLanguage \<Rightarrow> (UOp \<Rightarrow> nat) \<Rightarrow> UOp \<Rightarrow> state \<Rightarrow> error + state" where
  "render_ALU h lang cc u st =
     (case dtype u of
        None \<Rightarrow> Inl (AssertionError [])
      | Some dt \<Rightarrow>
          bindE (ALU_val h lang u dt st) (\<lambda>val.
          bindE (py_assert (cc u \<noteq> 0) ''childless ALU op found'') (\<lambda>_.
          if inlines h (cc u) dt (arg u) then Inr (st\<lparr>r := (r st)(u \<mapsto> val)\<rparr>)
          else (let (nm, st1) = ssa u ''alu'' st
                in Inr (kk (var_prefix lang dt @ '' '' @ nm @ '' = '' @ val @ '';'') st1)))))"

definition render_DEFINE_ACC :: "helpers \<Rightarrow> CStyleLanguage \<Rightarrow> UOp \<Rightarrow> state \<Rightarrow> error + state" where
  "render_DEFINE_ACC h lang u st =
     (case dtype u of
        None \<Rightarrow> Inl (AssertionError [])
      | Some dt \<Rightarrow>
          (let (nm, st1) = ssa u ''acc'' st in
           bindE (case arg u of ArgNum x \<Rightarrow> render_const h lang x (Some dt) | _ \<Rightarrow> Inl TypeError) (\<lambda>v.
           Inr (kk (var_prefix lang dt @ '' '' @ nm @ '' = '' @ v @ '';'') st1))))"

text \<open>
  \<open>SPECIAL\<close>: the payload is \<open>(index, name, extent)\<close>.  The extent of a local axis goes
  into \<open>local_size\<close>, a list of \<open>int\<close>; another value there is \<open>IllTyped\<close>.
\<close>

definition render_SPECIAL :: "helpers \<Rightarrow> CStyleLanguage \<Rightarrow> UOp \<Rightarrow> state \<Rightarrow> error + state" where
  "render_SPECIAL h lang u st =
     bindE (subscript (arg u) 1) (\<lambda>a1.
     case a1 of
       ArgStr nm \<Rightarrow>
         (let ids = (if startswith nm ''g'' then gid lang
                     else if startswith nm ''i'' then xid lang else lid lang) in
          bindE (subscript (arg u) 0) (\<lambda>a0.
          bindE (as_index a0) (\<lambda>i.
          bindE (py_index ids i) (\<lambda>x.
          bindE (subscript (arg u) 2) (\<lambda>a2.
          bindE (py_str h a2) (\<lambda>s2.
          let st1 = kk (size_prefix lang @ '' '' @ nm @ '' = '' @ x @ ''; /* '' @ s2 @ '' */'') st in
          bindE (if startswith nm ''l'' then
                   (case a2 of
                      ArgNum (PInt n) \<Rightarrow> Inr (st1\<lparr>local_size := local_size st1 @ [n]\<rparr>)
                    | _ \<Rightarrow> Inl IllTyped)
                 else Inr st1) (\<lambda>st2.
          Inr (st2\<lparr>r := (r st2)(u \<mapsto> nm)\<rparr>))))))))
     | _ \<Rightarrow> Inl AttributeError)"

definition render_CONST :: "helpers \<Rightarrow> CStyleLanguage \<Rightarrow> UOp \<Rightarrow> state \<Rightarrow> error + state" where
  "render_CONST h lang u st =
     (case arg u of
        ArgNum x \<Rightarrow>
          bindE (if num_ge0 x then render_const h lang x (dtype u)
                 else bindE (render_const h lang x (dtype u)) (\<lambda>s. Inr (''('' @ s @ '')''))) (\<lambda>v.
          Inr (st\<lparr>r := (r st)(u \<mapsto> v)\<rparr>))
      | _ \<Rightarrow> Inl TypeError)"

definition LOAD_val :: "helpers \<Rightarrow> CStyleLanguage \<Rightarrow> UOp \<Rightarrow> dtype \<Rightarrow> state \<Rightarrow> error + string" where
  "LOAD_val h lang u dt st =
     bindE (py_nth (vin u) 0) (\<lambda>v0.
     bindE (lookup st v0) (\<lambda>buf.
     bindE (r_vin st u 1) (\<lambda>i.
     bindE (py_strip_parens h i) (\<lambda>idx.
     bindE (render_load h lang dt buf (dtype v0) idx (uop v0 = DEFINE_LOCAL)) (\<lambda>val.
     if length (vin u) > 3 then
       bindE (r_vin st u 2) (\<lambda>cond.
       bindE (r_vin st u 3) (\<lambda>alt.
       Inr (render_conditional lang cond val alt)))
     else Inr val)))))"

definition render_LOAD :: "helpers \<Rightarrow> CStyleLanguage \<Rightarrow> UOp \<Rightarrow> state \<Rightarrow> error + state" where
  "render_LOAD h lang u st =
     (case dtype u of
        None \<Rightarrow> Inl (AssertionError [])
      | Some dt \<Rightarrow>
          bindE (LOAD_val h lang u dt st) (\<lambda>val.
          let (nm, st1) = ssa u ''val'' st in
          Inr (kk (var_prefix lang dt @ '' '' @ nm @ '' = '' @ val @ '';'') st1)))"

definition render_PHI :: "CStyleLanguage \<Rightarrow> UOp \<Rightarrow> state \<Rightarrow> error + state" where
  "render_PHI lang u st =
     bindE (r_vin st u 0) (\<lambda>a.
     bindE (r_vin st u 1) (\<lambda>b.
     Inr ((kk (a @ '' = '' @ b @ '';'') st)\<lparr>r := (r st)(u \<mapsto> a)\<rparr>)))"

definition render_STORE :: "helpers \<Rightarrow> CStyleLanguage \<Rightarrow> UOp \<Rightarrow> state \<Rightarrow> error + state" where
  "render_STORE h lang u st =
     bindE (py_nth (vin u) 0) (\<lambda>v0.
     case dtype v0 of
       None \<Rightarrow> Inl (AssertionError [])
     | Some buf_dtype \<Rightarrow>
         bindE (py_nth (vin u) 2) (\<lambda>v2.
         case dtype v2 of
           None \<Rightarrow> Inl (AssertionError [])
         | Some var_dtype \<Rightarrow>
             bindE (if length (vin u) > 3
                    then bindE (r_vin st u 3) (\<lambda>guard. Inr (kk (render_if lang guard) st))
                    else Inr st) (\<lambda>st1.
             bindE (lookup st v0) (\<lambda>buf.
             bindE (lookup st v2) (\<lambda>var.
             bindE (r_vin st u 1) (\<lambda>i.
             bindE (py_strip_parens h i) (\<lambda>idx.
             bindE (render_store h lang buf buf_dtype var var_dtype idx (uop v0 = DEFINE_LOCAL)) (\<lambda>s.
             let st2 = kk s st1 in
             Inr (if length (vin u) > 3 then kk ''}'' st2 else st2)))))))))"

definition render_CAST ::
  "helpers \<Rightarrow> CStyleLanguage \<Rightarrow> (UOp \<Rightarrow> nat) \<Rightarrow> UOp \<Rightarrow> dtype \<Rightarrow> state \<Rightarrow> error + state" where
  "render_CAST h lang cc u dt st =
     bindE (mapE (lookup st) (vin u)) (\<lambda>xs.
     bindE (case arg u of
              ArgTuple ys \<Rightarrow> bindE (py_nth ys 1) (\<lambda>b. Inr (truthy b))
            | _ \<Rightarrow> Inr False) (\<lambda>bitcast.
     bindE (render_cast h lang xs dt bitcast) (\<lambda>val.
     if cc u \<le> 1 then Inr (st\<lparr>r := (r st)(u \<mapsto> val)\<rparr>)
     else (let (nm, st1) = ssa u ''cast'' st
           in Inr (kk (var_prefix lang dt @ '' '' @ nm @ '' = '' @ val @ '';'') st1)))))"

text \<open>\<open>DEFINE_LOCAL\<close> and \<open>DEFINE_GLOBAL\<close> bind the symbol table entry to the name in the
  payload; the symbol table holds strings, and a name that is not one is \<open>IllTyped\<close>.\<close>

definition render_DEFINE_LOCAL :: "helpers \<Rightarrow> CStyleLanguage \<Rightarrow> UOp \<Rightarrow> state \<Rightarrow> error + state" where
  "render_DEFINE_LOCAL h lang u st =
     bindE (subscript (arg u) 0) (\<lambda>a0.
     bindE (subscript (arg u) 1) (\<lambda>a1.
     bindE (render_local h lang a0 a1) (\<lambda>s.
     let st1 = (if external_local_bufs lang then st\<lparr>prekernel := prekernel st @ [s]\<rparr> else kk s st) in
     case a0 of
       ArgStr nm \<Rightarrow> Inr (st1\<lparr>r := (r st1)(u \<mapsto> nm)\<rparr>)
     | _ \<Rightarrow> Inl IllTyped)))"

definition render_DEFINE_GLOBAL :: "CStyleLanguage \<Rightarrow> UOp \<Rightarrow> state \<Rightarrow> error + state" where
  "render_DEFINE_GLOBAL lang u st =
     (case dtype u of
        None \<Rightarrow> Inl (AssertionError [])
      | Some dt \<Rightarrow>
          (case arg u of
             ArgStr nm \<Rightarrow> Inr (st\<lparr>bufs := bufs st @ [(nm, dt)], r := (r st)(u \<mapsto> nm)\<rparr>)
           | _ \<Rightarrow> Inl IllTyped))"

definition render_GEP :: "helpers \<Rightarrow> CStyleLanguage \<Rightarrow> UOp \<Rightarrow> state \<Rightarrow> error + state" where
  "render_GEP h lang u st =
     bindE (py_nth (vin u) 0) (\<lambda>v0.
     case dtype v0 of
       None \<Rightarrow> Inl AttributeError
     | Some d0 \<Rightarrow>
         bindE (lookup st v0) (\<lambda>x.
         if sz d0 > 4 then
           bindE (py_str h (arg u)) (\<lambda>a. Inr (st\<lparr>r := (r st)(u \<mapsto> ''('' @ x @ '')['' @ a @ '']'')\<rparr>))
         else
           bindE (as_index (arg u)) (\<lambda>i.
           bindE (py_index ''xyzw'' i) (\<lambda>ch.
           Inr (st\<lparr>r := (r st)(u \<mapsto> ''('' @ x @ '').'' @ [ch])\<rparr>)))))"

subsection \<open>The dispatch and the pass\<close>

definition render_uop ::
  "helpers \<Rightarrow> CStyleLanguage \<Rightarrow> (UOp \<Rightarrow> nat) \<Rightarrow> UOp \<Rightarrow> state \<Rightarrow> error + state" where
  "render_uop h lang cc u st =
     (if uop u = LOOP then render_LOOP lang u st
      else if uop u = IF then render_IF lang u st
      else if uop u = BARRIER then render_BARRIER lang u st
      else if uop u = END then render_END lang u st
      else if uop u = WMMA then render_WMMA h lang u st
      else if uop u = ALU then render_ALU h lang cc u st
      else if uop u = DEFINE_ACC then render_DEFINE_ACC h lang u st
      else if uop u = SPECIAL then render_SPECIAL h lang u st
      else if uop u = CONST_uop then render_CONST h lang u st
      else if uop u = LOAD then render_LOAD h lang u st
      else if uop u = PHI then render_PHI lang u st
      else if uop u = STORE then render_STORE h lang u st
      else if uop u = CAST \<and> dtype u \<noteq> None then render_CAST h lang cc u (the (dtype u)) st
      else if uop u = DEFINE_LOCAL then render_DEFINE_LOCAL h lang u st
      else if uop u = DEFINE_GLOBAL then render_DEFINE_GLOBAL lang u st
      else if uop u = GEP then render_GEP h lang u st
      else Inl (RuntimeError ''failed to render''))"

text \<open>The loop \<open>for u in uops\<close>: the first exception ends the pass.\<close>

fun render_uops ::
  "helpers \<Rightarrow> CStyleLanguage \<Rightarrow> (UOp \<Rightarrow> nat) \<Rightarrow> UOp list \<Rightarrow> state \<Rightarrow> error + state" where
  "render_uops h lang cc [] st = Inr st"
| "render_uops h lang cc (u # us) st =
     bindE (render_uop h lang cc u st) (render_uops h lang cc us)"

text \<open>
  \<open>uops_to_cstyle\<close> returns the pair of the kernel text and the literal \<open>{}\<close>.  The empty
  dictionary is the empty list of entries, at the type of the buffer signature.
\<close>

definition uops_to_cstyle ::
  "helpers \<Rightarrow> CStyleLanguage \<Rightarrow> string \<Rightarrow> UOp list \<Rightarrow> error + string \<times> (string \<times> dtype) list" where
  "uops_to_cstyle h lang function_name uops =
     bindE (render_uops h lang (child_count uops) uops init_state) (\<lambda>st.
     bindE (render_kernel h lang function_name (kernel st) (bufs st) (local_size st) (prekernel st)) (\<lambda>prg.
     Inr (prg, [])))"

definition OpenCLRenderer where "OpenCLRenderer h = uops_to_cstyle h OpenCLLanguage"
definition MetalRenderer where "MetalRenderer h = uops_to_cstyle h MetalLanguage"
definition CUDARenderer where "CUDARenderer h = uops_to_cstyle h CUDALanguage"
definition HIPRenderer where "HIPRenderer h = uops_to_cstyle h HIPLanguage"
definition WGSLRenderer where "WGSLRenderer h = uops_to_cstyle h WGSLLanguage"

section \<open>A helper module for the examples\<close>

text \<open>
  Modelled from the spec: one value of \<open>helpers\<close>, used where the renderer is evaluated at
  a concrete input.  The scalar kinds of section 3 (bool, signed and unsigned integers,
  float16 and float32) carry their C names, \<open>vec\<close> appends the width to the name, \<open>scalar\<close>
  removes it again, \<open>strip_parens\<close> removes one enclosing pair of parentheses, no
  environment variable is set, and \<open>float_str\<close> prints an integral value with one
  decimal (as Python does below \<open>10^16\<close>).  The theorems below are stated for every value
  of \<open>helpers\<close>; only their instances at examples use this one.
\<close>

definition plain :: "string \<Rightarrow> dtype" where
  "plain n = \<lparr>name = n, sz = 1, cls = DType\<rparr>"

definition ptr :: "dtype \<Rightarrow> dtype" where
  "ptr d = d\<lparr>cls := PtrDType\<rparr>"

text \<open>\<open>s.find(ch)\<close>: the first index of \<open>ch\<close>, or \<open>-1\<close>.\<close>

fun find_char :: "string \<Rightarrow> char \<Rightarrow> int" where
  "find_char [] ch = - 1"
| "find_char (x # xs) ch =
     (if x = ch then 0 else (let k = find_char xs ch in if k < 0 then - 1 else k + 1))"

definition example_strip_parens :: "string \<Rightarrow> string option" where
  "example_strip_parens s =
     (if s = [] then None
      else if hd s = CHR ''('' \<and> last s = CHR '')''
              \<and> find_char (butlast (tl s)) CHR ''('' \<le> find_char (butlast (tl s)) CHR '')''
      then Some (butlast (tl s))
      else Some s)"

definition example_helpers :: helpers where
  "example_helpers =
     \<lparr> dtypes_bool = plain ''bool'',
       dtypes_int = plain ''int'',
       dtypes_int32 = plain ''int'',
       dtypes_float = plain ''float'',
       dtypes_float16 = plain ''half'',
       dtypes_half = plain ''half'',
       dtypes_uint8 = plain ''unsigned char'',
       dtypes_uint16 = plain ''unsigned short'',
       dtypes_uint32 = plain ''unsigned int'',
       dtypes_uint64 = plain ''unsigned long'',
       vec = (\<lambda>d n. \<lparr>name = name d @ str_nat n, sz = n, cls = DType\<rparr>),
       scalar = (\<lambda>d. if sz d > 1
                      then \<lparr>name = take (length (name d) - length (str_nat (sz d))) (name d), sz = 1, cls = DType\<rparr>
                      else d),
       is_int = (\<lambda>d. sz d = 1 \<and> name d \<in> set [''char'', ''short'', ''int'', ''long'', ''unsigned char'',
                                                ''unsigned short'', ''unsigned int'', ''unsigned long'']),
       is_float = (\<lambda>d. sz d = 1 \<and> name d \<in> set [''half'', ''float'', ''double'']),
       strip_parens = example_strip_parens,
       getenv = (\<lambda>_. 0),
       float_str = (\<lambda>x. str_int (num_int x) @ ''.0'') \<rparr>"

section \<open>Example records\<close>

text \<open>An integer constant \<open>0\<close> and a \<open>CAST\<close> record of it that has no result type.\<close>

definition k0 :: UOp where
  "k0 = UOp 0 CONST_uop (Some (plain ''int'')) [] (ArgNum (PInt 0))"

definition cast_none :: UOp where
  "cast_none = UOp 1 CAST None [k0] ArgNone"

text \<open>Two float constants, their sum, and a negation that uses the sum.\<close>

definition k2 :: UOp where
  "k2 = UOp 1 CONST_uop (Some (plain ''float'')) [] (ArgNum (PInt 2))"

definition k3 :: UOp where
  "k3 = UOp 2 CONST_uop (Some (plain ''float'')) [] (ArgNum (PInt 3))"

definition add23 :: UOp where
  "add23 = UOp 3 ALU (Some (plain ''float'')) [k2, k3] (ArgOp ADD)"

definition neg_add :: UOp where
  "neg_add = UOp 4 ALU (Some (plain ''float'')) [add23] (ArgOp NEG)"

text \<open>The state after the two constants.\<close>

definition consts_rendered :: state where
  "consts_rendered = init_state\<lparr>r := [k2 \<mapsto> ''2.0f'', k3 \<mapsto> ''3.0f'']\<rparr>"

text \<open>The four-wide float vector type.\<close>

definition float4_t :: dtype where
  "float4_t = vec example_helpers (dtypes_float example_helpers) 4"

text \<open>A maximum of the two constants, and a negation that is its only use.\<close>

definition max23 :: UOp where
  "max23 = UOp 5 ALU (Some (plain ''float'')) [k2, k3] (ArgOp MAX_op)"

definition neg_max :: UOp where
  "neg_max = UOp 6 ALU (Some (plain ''float'')) [max23] (ArgOp NEG)"

text \<open>
  A buffer \<open>data0\<close>, a boolean constant, a load from the buffer, and two stores of the
  constant \<open>2\<close> into it, the second under the boolean as its guard.
\<close>

definition data0 :: UOp where
  "data0 = UOp 7 DEFINE_GLOBAL (Some (ptr (plain ''float''))) [] (ArgStr ''data0'')"

definition kT :: UOp where
  "kT = UOp 8 CONST_uop (Some (plain ''bool'')) [] (ArgNum (PBool True))"

definition load0 :: UOp where
  "load0 = UOp 9 LOAD (Some (plain ''float'')) [data0, k0] ArgNone"

definition store_plain :: UOp where
  "store_plain = UOp 10 STORE None [data0, k0, k2] ArgNone"

definition store_guarded :: UOp where
  "store_guarded = UOp 11 STORE None [data0, k0, k2, kT] ArgNone"

text \<open>The state after \<open>data0\<close> and the constants.\<close>

definition mem_state :: state where
  "mem_state = init_state
     \<lparr> bufs := [(''data0'', ptr (plain ''float''))],
       r := [data0 \<mapsto> ''data0'', k0 \<mapsto> ''0'', k2 \<mapsto> ''2.0f'', kT \<mapsto> ''true''] \<rparr>"

text \<open>Three buffers, an \<open>END\<close> and an \<open>IF\<close> on their own, and two matrix operations.\<close>

definition bufA :: UOp where
  "bufA = UOp 12 DEFINE_GLOBAL (Some (ptr (plain ''float''))) [] (ArgStr ''A'')"

definition bufB :: UOp where
  "bufB = UOp 13 DEFINE_GLOBAL (Some (ptr (plain ''float''))) [] (ArgStr ''B'')"

definition bufC :: UOp where
  "bufC = UOp 14 DEFINE_GLOBAL (Some (ptr (plain ''float''))) [] (ArgStr ''C'')"

definition loadA :: UOp where
  "loadA = UOp 15 LOAD (Some (plain ''float'')) [bufA, k0] ArgNone"

definition loadA' :: UOp where
  "loadA' = UOp 16 LOAD (Some (plain ''float'')) [bufA, k0] ArgNone"

definition storeC :: UOp where
  "storeC = UOp 17 STORE None [bufC, k0, loadA] ArgNone"

definition end_only :: UOp where
  "end_only = UOp 18 END None [] ArgNone"

definition if_only :: UOp where
  "if_only = UOp 19 IF None [kT] ArgNone"

definition wmma_metal :: UOp where
  "wmma_metal = UOp 20 WMMA (Some (vec example_helpers (plain ''float'') 2)) [k2, k3, k2, k3, k2, k3]
     (ArgTuple [ArgStr ''METAL''])"

definition wmma_hip_wrong :: UOp where
  "wmma_hip_wrong = UOp 21 WMMA (Some (vec example_helpers (plain ''float'') 2)) [k2, k3, k2]
     (ArgTuple [ArgStr ''HIP''])"

definition wmma_other :: UOp where
  "wmma_other = UOp 22 WMMA (Some (vec example_helpers (plain ''float'') 2)) [k2, k3, k2]
     (ArgTuple [ArgStr ''CUDA''])"

section \<open>What the claims speak of\<close>

text \<open>
  The statement of a \<open>STORE\<close> record: what \<open>render_store\<close> gives for its buffer, index and
  value operands, after the assertion that the buffer and the value have a type.
\<close>

definition STORE_stmt :: "helpers \<Rightarrow> CStyleLanguage \<Rightarrow> UOp \<Rightarrow> state \<Rightarrow> error + string" where
  "STORE_stmt h lang u st =
     bindE (py_nth (vin u) 0) (\<lambda>v0.
     case dtype v0 of
       None \<Rightarrow> Inl (AssertionError [])
     | Some buf_dtype \<Rightarrow>
         bindE (py_nth (vin u) 2) (\<lambda>v2.
         case dtype v2 of
           None \<Rightarrow> Inl (AssertionError [])
         | Some var_dtype \<Rightarrow>
             bindE (lookup st v0) (\<lambda>buf.
             bindE (lookup st v2) (\<lambda>var.
             bindE (r_vin st u 1) (\<lambda>i.
             bindE (py_strip_parens h i) (\<lambda>idx.
             render_store h lang buf buf_dtype var var_dtype idx (uop v0 = DEFINE_LOCAL)))))))"

text \<open>
  The buffer signature of a sequence, in the words of the spec: the (name, type) pairs of
  its \<open>DEFINE_GLOBAL\<close> records, in the order of the sequence.
\<close>

fun buffer_signature :: "UOp list \<Rightarrow> (string \<times> dtype) list" where
  "buffer_signature [] = []"
| "buffer_signature (u # us) =
     (if uop u = DEFINE_GLOBAL
      then (case (dtype u, arg u) of (Some dt, ArgStr nm) \<Rightarrow> [(nm, dt)] | _ \<Rightarrow> [])
      else []) @ buffer_signature us"

text \<open>The records that open a scope and those that close one.\<close>

definition opens :: "UOp \<Rightarrow> bool" where
  "opens u = (uop u = LOOP \<or> uop u = IF)"

definition closes :: "UOp \<Rightarrow> bool" where
  "closes u = (uop u = END)"

text \<open>
  Two states have the same frame when they agree on the buffer list and on the depth.
\<close>

definition same_frame :: "state \<Rightarrow> state \<Rightarrow> bool" where
  "same_frame st st' = (bufs st' = bufs st \<and> depth st' = depth st)"

text \<open>An entry of an operator table that raises nothing but \<open>TypeError\<close>.\<close>

definition op_render_ok :: "op_render \<Rightarrow> bool" where
  "op_render_ok f = (\<forall>xs dt e. f xs dt = Inl e \<longrightarrow> e = TypeError)"

section \<open>Basic facts\<close>

lemma bindE_Inl [simp]: "bindE (Inl e) f = Inl e"
  by (simp add: bindE_def)

lemma bindE_Inr [simp]: "bindE (Inr x) f = f x"
  by (simp add: bindE_def)

lemma bindE_eq_Inr: "bindE m f = Inr y \<longleftrightarrow> (\<exists>x. m = Inr x \<and> f x = Inr y)"
  by (cases m) simp_all

lemma bindE_eq_Inl: "bindE m f = Inl e \<longleftrightarrow> m = Inl e \<or> (\<exists>x. m = Inr x \<and> f x = Inl e)"
  by (cases m) simp_all

lemma render_uops_append:
  "render_uops h lang cc (xs @ ys) st = bindE (render_uops h lang cc xs st) (render_uops h lang cc ys)"
proof (induction xs arbitrary: st)
  case Nil
  show ?case by simp
next
  case (Cons x xs)
  show ?case
    by (cases "render_uop h lang cc x st") (simp_all add: Cons.IH)
qed

text \<open>The definitions that evaluate the renderer at a concrete input.\<close>

lemmas all_defs = py_assert_def py_index_def py_nth_def str_int_def startswith_def bool_lower_def NL_def
  int_too_large_def math_isnan_def math_isinf_def num_negative_def num_ge0_def num_int_def num_bool_def
  dtype_eq_def opt_dtype_eq_def dict_get_def subscript_def truthy_def as_index_def prod_def py_str_def
  OpenCL_type_map_def WGSL_type_map_def unary_def binary_def ternary_def CStyle_code_for_op_def
  code_for_op_half_def code_for_op_def CStyle_render_cast_def OpenCL_render_cast_def Metal_render_cast_def
  WGSL_render_cast_def render_cast_def CStyle_render_const_def WGSL_render_const_def render_const_def
  isinstance_def render_load_def CStyle_render_local_def WGSL_render_local_def render_local_def
  render_for_def render_if_def render_conditional_def CStyle_render_store_def WGSL_render_store_def
  render_store_def CStyle_render_kernel_def WGSL_render_kernel_def render_kernel_def init_state_def
  indent_def kk_def ssa_def lookup_def r_vin_def py_strip_parens_def var_prefix_def child_count_def
  render_LOOP_def render_IF_def render_BARRIER_def render_END_def render_WMMA_def strips_parens_def
  inlines_def ALU_val_def render_ALU_def render_DEFINE_ACC_def render_SPECIAL_def render_CONST_def
  LOAD_val_def render_LOAD_def render_PHI_def render_STORE_def render_CAST_def render_DEFINE_LOCAL_def
  render_DEFINE_GLOBAL_def render_GEP_def render_uop_def uops_to_cstyle_def plain_def ptr_def
  example_strip_parens_def example_helpers_def str_nat.simps Let_def

lemmas lang_defs = CStyleLanguage_default_def OpenCLLanguage_def MetalLanguage_def CUDA_half_prekernel_def
  CUDALanguage_def HIP_kernel_prefix_def HIP_half_prekernel_def HIPLanguage_def WGSLLanguage_def

lemma py_assert_simps [simp]:
  "py_assert True msg = Inr ()" "py_assert False msg = Inl (AssertionError msg)"
  by (simp_all add: py_assert_def)

section \<open>A cast without a result type\<close>

lemma render_uop_CAST_None:
  "uop u = CAST \<Longrightarrow> dtype u = None \<Longrightarrow> render_uop h lang cc u st = Inl (RuntimeError ''failed to render'')"
  by (simp add: render_uop_def)

text \<open>
  Claim C10.  A \<open>CAST\<close> record whose result type is \<open>None\<close> is not rendered as a cast: in
  every state the dispatch falls through to its last branch and raises the
  \<open>RuntimeError\<close> "failed to render", and so does \<open>uops_to_cstyle\<close> on every sequence whose
  records before that one render.
\<close>

theorem C10_cast_without_type_fails_to_render:
  assumes "uop u = CAST" and "dtype u = None"
  shows "render_uop h lang cc u st = Inl (RuntimeError ''failed to render'') \<and>
         (render_uops h lang (child_count (pre @ u # post)) pre init_state = Inr st' \<longrightarrow>
          uops_to_cstyle h lang fn (pre @ u # post) = Inl (RuntimeError ''failed to render''))"
  using assms
  by (simp add: render_uop_CAST_None uops_to_cstyle_def render_uops_append)

theorem C10_witness:
  "uop cast_none = CAST \<and> dtype cast_none = None \<and>
   render_uops example_helpers OpenCLLanguage (child_count ([k0] @ cast_none # [])) [k0] init_state
     = Inr (init_state\<lparr>r := [k0 \<mapsto> ''0'']\<rparr>) \<and>
   render_uop example_helpers OpenCLLanguage (child_count [k0, cast_none]) cast_none init_state
     = Inl (RuntimeError ''failed to render'') \<and>
   uops_to_cstyle example_helpers OpenCLLanguage ''E'' ([k0] @ cast_none # [])
     = Inl (RuntimeError ''failed to render'')"
proof -
  have a: "uop cast_none = CAST" and b: "dtype cast_none = None"
    by (simp_all add: cast_none_def)
  have p: "render_uops example_helpers OpenCLLanguage (child_count ([k0] @ cast_none # [])) [k0] init_state
     = Inr (init_state\<lparr>r := [k0 \<mapsto> ''0'']\<rparr>)"
    by (simp add: k0_def all_defs lang_defs)
  from C10_cast_without_type_fails_to_render [OF a b, where h = example_helpers and lang = OpenCLLanguage
         and st = init_state and pre = "[k0]" and post = "[]" and fn = "''E''"
         and cc = "child_count [k0, cast_none]"] a b p
  show ?thesis by simp
qed

section \<open>Arithmetic results without a consumer\<close>

lemma mapE_lookup_error: "mapE (lookup st) xs = Inl e \<Longrightarrow> e = KeyError"
proof (induction xs arbitrary: e)
  case Nil
  then show ?case by simp
next
  case (Cons x xs)
  then show ?case
    by (auto simp: bindE_eq_Inl lookup_def split: option.splits)
qed

lemma op_render_ok_unary: "op_render_ok (unary g)"
  by (auto simp: op_render_ok_def unary_def split: list.splits)

lemma op_render_ok_binary: "op_render_ok (binary g)"
  by (auto simp: op_render_ok_def binary_def split: list.splits)

lemma op_render_ok_ternary: "op_render_ok (ternary g)"
  by (auto simp: op_render_ok_def ternary_def split: list.splits)

lemmas op_render_oks = op_render_ok_unary op_render_ok_binary op_render_ok_ternary

lemma CStyle_code_for_op_ok: "CStyle_code_for_op h opr = Some f \<Longrightarrow> op_render_ok f"
  by (auto simp: CStyle_code_for_op_def op_render_oks split: if_splits)

lemma code_for_op_half_ok: "code_for_op_half h opr = Some f \<Longrightarrow> op_render_ok f"
  by (auto simp: code_for_op_half_def op_render_oks split: if_splits)

lemma code_for_op_ok: "code_for_op h lang opr = Some f \<Longrightarrow> op_render_ok f"
  by (cases "profile lang")
     (auto simp: code_for_op_def map_add_Some_iff op_render_oks
           dest: CStyle_code_for_op_ok code_for_op_half_ok split: if_splits)

lemma op_render_okD: "op_render_ok f \<Longrightarrow> f xs dt = Inl e \<Longrightarrow> e = TypeError"
  by (auto simp: op_render_ok_def)

lemma ALU_val_error:
  assumes "ALU_val h lang u dt st = Inl e"
  shows "e \<in> {IndexError, KeyError, TypeError}"
  using assms
  by (auto simp: ALU_val_def bindE_eq_Inl py_nth_def py_strip_parens_def
           dest: mapE_lookup_error op_render_okD [OF code_for_op_ok]
           split: if_splits uarg.splits option.splits)

lemma render_ALU_childless:
  "cc u = 0 \<Longrightarrow> \<exists>e. render_ALU h lang cc u st = Inl e"
  by (cases "dtype u"; cases "ALU_val h lang u (the (dtype u)) st") (simp_all add: render_ALU_def)

lemma render_uops_fails_at:
  assumes "u \<in> set us" and "\<And>st. \<exists>e. render_uop h lang cc u st = Inl e"
  shows "\<exists>e. render_uops h lang cc us st = Inl e"
  using assms(1)
proof (induction us arbitrary: st)
  case Nil
  then show ?case by simp
next
  case (Cons x xs)
  show ?case
  proof (cases "render_uop h lang cc x st")
    case (Inl e)
    then show ?thesis by simp
  next
    case (Inr st1)
    with Cons assms(2) [of st] have "u \<in> set xs" by auto
    with Cons.IH [of st1] Inr show ?thesis by simp
  qed
qed

text \<open>
  Claim C9.  A sequence that contains an \<open>ALU\<close> record with use-count 0 is never rendered:
  \<open>uops_to_cstyle\<close> raises.  Where the pass reaches such a record and its expression
  renders, the exception is the assertion "childless ALU op found"; an \<open>ALU\<close> record
  with a use-count of at least 1 never raises that assertion.
\<close>

theorem C9_childless_alu_fails:
  assumes "uop u = ALU"
  shows "(u \<in> set uops \<and> child_count uops u = 0 \<longrightarrow> (\<exists>e. uops_to_cstyle h lang fn uops = Inl e)) \<and>
         (cc u = 0 \<and> dtype u = Some dt \<and> ALU_val h lang u dt st = Inr val \<longrightarrow>
            render_uop h lang cc u st = Inl (AssertionError ''childless ALU op found'')) \<and>
         (cc u \<noteq> 0 \<longrightarrow> render_uop h lang cc u st \<noteq> Inl (AssertionError ''childless ALU op found''))"
proof (intro conjI impI)
  assume a: "u \<in> set uops \<and> child_count uops u = 0"
  have "\<And>s. \<exists>e. render_uop h lang (child_count uops) u s = Inl e"
    using a assms render_ALU_childless [of "child_count uops" u] by (simp add: render_uop_def)
  with a have "\<exists>e. render_uops h lang (child_count uops) uops init_state = Inl e"
    using render_uops_fails_at by blast
  then show "\<exists>e. uops_to_cstyle h lang fn uops = Inl e"
    by (auto simp: uops_to_cstyle_def)
next
  assume "cc u = 0 \<and> dtype u = Some dt \<and> ALU_val h lang u dt st = Inr val"
  with assms show "render_uop h lang cc u st = Inl (AssertionError ''childless ALU op found'')"
    by (simp add: render_uop_def render_ALU_def)
next
  assume nz: "cc u \<noteq> 0"
  show "render_uop h lang cc u st \<noteq> Inl (AssertionError ''childless ALU op found'')"
  proof
    assume "render_uop h lang cc u st = Inl (AssertionError ''childless ALU op found'')"
    with assms have e: "render_ALU h lang cc u st = Inl (AssertionError ''childless ALU op found'')"
      by (simp add: render_uop_def)
    show False
    proof (cases "dtype u")
      case None
      with e show False by (simp add: render_ALU_def)
    next
      case (Some dt)
      show False
      proof (cases "ALU_val h lang u dt st")
        case (Inl e')
        with e Some have "e' = AssertionError ''childless ALU op found''"
          by (simp add: render_ALU_def)
        with ALU_val_error [OF Inl] show False by simp
      next
        case (Inr val)
        with e Some nz show False
          by (simp add: render_ALU_def Let_def ssa_def split: if_splits)
      qed
    qed
  qed
qed

lemma consts_rendered:
  "render_uops example_helpers OpenCLLanguage cc [k2, k3] init_state = Inr consts_rendered"
  by (simp add: k2_def k3_def consts_rendered_def all_defs lang_defs)

lemma add23_val:
  "ALU_val example_helpers OpenCLLanguage add23 (plain ''float'') consts_rendered = Inr ''(2.0f+3.0f)''"
  by (simp add: k2_def k3_def add23_def consts_rendered_def all_defs lang_defs)

theorem C9_witness:
  "uop add23 = ALU \<and> add23 \<in> set [k2, k3, add23] \<and> child_count [k2, k3, add23] add23 = 0 \<and>
   (\<exists>e. uops_to_cstyle example_helpers OpenCLLanguage ''E'' [k2, k3, add23] = Inl e) \<and>
   dtype add23 = Some (plain ''float'') \<and>
   ALU_val example_helpers OpenCLLanguage add23 (plain ''float'') consts_rendered = Inr ''(2.0f+3.0f)'' \<and>
   render_uop example_helpers OpenCLLanguage (child_count [k2, k3, add23]) add23 consts_rendered
     = Inl (AssertionError ''childless ALU op found'') \<and>
   child_count [k2, k3, add23, neg_add] add23 \<noteq> 0 \<and>
   render_uop example_helpers OpenCLLanguage (child_count [k2, k3, add23, neg_add]) add23 consts_rendered
     \<noteq> Inl (AssertionError ''childless ALU op found'')"
proof -
  have a: "uop add23 = ALU" and b: "dtype add23 = Some (plain ''float'')"
    by (simp_all add: add23_def)
  have c0: "child_count [k2, k3, add23] add23 = 0"
    by (simp add: k2_def k3_def add23_def child_count_def)
  have c1: "child_count [k2, k3, add23, neg_add] add23 \<noteq> 0"
    by (simp add: k2_def k3_def add23_def neg_add_def child_count_def)
  note w0 = C9_childless_alu_fails [OF a, where uops = "[k2, k3, add23]" and h = example_helpers
      and lang = OpenCLLanguage and fn = "''E''" and cc = "child_count [k2, k3, add23]"
      and dt = "plain ''float''" and st = consts_rendered and val = "''(2.0f+3.0f)''"]
  note w1 = C9_childless_alu_fails [OF a, where uops = "[k2, k3, add23]" and h = example_helpers
      and lang = OpenCLLanguage and fn = "''E''" and cc = "child_count [k2, k3, add23, neg_add]"
      and dt = "plain ''float''" and st = consts_rendered and val = "''(2.0f+3.0f)''"]
  from w0 w1 a b c0 c1 add23_val show ?thesis by simp
qed

section \<open>Casts\<close>

text \<open>
  Claim C3, as stated, fails: a single operand is cast to a vector type of any width.
  Here one operand and the four-wide float type give a cast, not an exception.
\<close>

theorem C3_counterexample:
  "length [''x''] \<noteq> sz float4_t \<and>
   render_cast example_helpers OpenCLLanguage [''x''] float4_t False = Inr ''(float4)(x)''"
  by (simp add: float4_t_def all_defs lang_defs)

text \<open>
  Claim C3, amended.  In every profile but the WGSL one, a cast that is not a bitcast and
  has \<open>N\<close> operands for a target type of width \<open>W\<close>: with \<open>N = 1\<close> it is the
  type-name cast of the operand, whatever \<open>W\<close>; with \<open>N \<noteq> 1\<close> and \<open>N \<noteq> W\<close> it raises
  the assertion "cast is wrong size"; and with \<open>N \<noteq> 1\<close> it succeeds exactly when
  \<open>N = W\<close> and the profile has a vector constructor (\<open>float4\<close>).
\<close>

theorem C3_cast_width_checked_for_vector_construction:
  assumes "profile lang \<noteq> WGSL"
  shows "(length x = 1 \<longrightarrow> render_cast h lang x dt False = Inr (''('' @ name dt @ '')('' @ hd x @ '')'')) \<and>
         (length x \<noteq> 1 \<and> length x \<noteq> sz dt \<longrightarrow>
            render_cast h lang x dt False = Inl (AssertionError ''cast is wrong size'')) \<and>
         (length x \<noteq> 1 \<longrightarrow>
            ((\<exists>s. render_cast h lang x dt False = Inr s) \<longleftrightarrow> length x = sz dt \<and> float4 lang \<noteq> None))"
  using assms
  by (cases "profile lang")
     (auto simp: render_cast_def OpenCL_render_cast_def Metal_render_cast_def CStyle_render_cast_def
           py_assert_def split: option.splits)

theorem C3_witness:
  "profile OpenCLLanguage \<noteq> WGSL \<and>
   length [''x'', ''y''] \<noteq> 1 \<and> length [''x'', ''y''] \<noteq> sz float4_t \<and>
   render_cast example_helpers OpenCLLanguage [''x'', ''y''] float4_t False
     = Inl (AssertionError ''cast is wrong size'') \<and>
   length [''x'', ''y'', ''z'', ''w''] = sz float4_t \<and> float4 OpenCLLanguage \<noteq> None \<and>
   (\<exists>s. render_cast example_helpers OpenCLLanguage [''x'', ''y'', ''z'', ''w''] float4_t False = Inr s)"
proof -
  have p: "profile OpenCLLanguage \<noteq> WGSL"
    by (simp add: lang_defs)
  have f: "float4 OpenCLLanguage \<noteq> None"
    by (simp add: lang_defs)
  have w: "sz float4_t = 4"
    by (simp add: float4_t_def all_defs)
  from C3_cast_width_checked_for_vector_construction
         [OF p, where x = "[''x'', ''y'']" and dt = float4_t and h = example_helpers]
       C3_cast_width_checked_for_vector_construction
         [OF p, where x = "[''x'', ''y'', ''z'', ''w'']" and dt = float4_t and h = example_helpers]
       p f w
  show ?thesis by simp
qed

section \<open>Constants\<close>

text \<open>
  Claim C7.  For every profile, a constant of the scalar type \<open>float\<close> that is positive
  infinity renders as the profile's infinity token (\<open>INFINITY\<close>, in the WGSL profile
  \<open>inf(1.0)\<close>), one that is NaN as its NaN token (\<open>NAN\<close>, in the WGSL profile \<open>nan()\<close>),
  and a boolean constant of the scalar type \<open>bool\<close> as the lowercase literal \<open>true\<close> or
  \<open>false\<close>, which the WGSL profile puts in parentheses.
\<close>

theorem C7_special_constants:
  assumes "sz dt = 1" and "dtype_eq dt (dtypes_float h)"
    and "sz db = 1" and "dtype_eq db (dtypes_bool h)" and "\<not> is_float h db" and "\<not> is_int h db"
  shows "render_const h lang (PFloat (Inf False)) (Some dt)
           = Inr (if profile lang = WGSL then ''inf(1.0)'' else ''INFINITY'') \<and>
         render_const h lang (PFloat NaN) (Some dt)
           = Inr (if profile lang = WGSL then ''nan()'' else ''NAN'') \<and>
         render_const h lang (PBool b) (Some db)
           = Inr (if profile lang = WGSL then (if b then ''(true)'' else ''(false)'')
                  else (if b then ''true'' else ''false''))"
  using assms
  by (cases "profile lang")
     (simp_all add: render_const_def CStyle_render_const_def WGSL_render_const_def math_isnan_def
        math_isinf_def num_negative_def num_bool_def bool_lower_def)

theorem C7_witness:
  "sz (plain ''float'') = 1 \<and> dtype_eq (plain ''float'') (dtypes_float example_helpers) \<and>
   sz (plain ''bool'') = 1 \<and> dtype_eq (plain ''bool'') (dtypes_bool example_helpers) \<and>
   \<not> is_float example_helpers (plain ''bool'') \<and> \<not> is_int example_helpers (plain ''bool'') \<and>
   render_const example_helpers CUDALanguage (PFloat (Inf False)) (Some (plain ''float'')) = Inr ''INFINITY'' \<and>
   render_const example_helpers CUDALanguage (PFloat NaN) (Some (plain ''float'')) = Inr ''NAN'' \<and>
   render_const example_helpers CUDALanguage (PBool True) (Some (plain ''bool'')) = Inr ''true'' \<and>
   render_const example_helpers WGSLLanguage (PFloat (Inf False)) (Some (plain ''float'')) = Inr ''inf(1.0)'' \<and>
   render_const example_helpers WGSLLanguage (PFloat NaN) (Some (plain ''float'')) = Inr ''nan()'' \<and>
   render_const example_helpers WGSLLanguage (PBool False) (Some (plain ''bool'')) = Inr ''(false)''"
proof -
  have a: "sz (plain ''float'') = 1" "dtype_eq (plain ''float'') (dtypes_float example_helpers)"
    "sz (plain ''bool'') = 1" "dtype_eq (plain ''bool'') (dtypes_bool example_helpers)"
    "\<not> is_float example_helpers (plain ''bool'')" "\<not> is_int example_helpers (plain ''bool'')"
    by (simp_all add: plain_def dtype_eq_def example_helpers_def)
  have p: "profile CUDALanguage = CUDA" "profile WGSLLanguage = WGSL"
    by (simp_all add: lang_defs)
  from C7_special_constants [OF a, where lang = CUDALanguage and b = True]
       C7_special_constants [OF a, where lang = WGSLLanguage and b = False] a p
  show ?thesis by simp
qed

section \<open>Loads and stores\<close>

lemma mem_state_rendered:
  "render_uops example_helpers OpenCLLanguage cc [data0, k0, k2, kT] init_state = Inr mem_state"
  by (simp add: data0_def k0_def k2_def kT_def mem_state_def all_defs lang_defs)

text \<open>
  Claim C6.  A \<open>LOAD\<close> record is rendered exactly when it has a result type and its
  value expression renders, and then, whatever its use-count, the state changes by one
  declaration line that binds the expression to the next name \<open>val<n>\<close>, by the symbol
  table entry of the record, bound to that name, and by the counter of \<open>val\<close> names.
\<close>

theorem C6_load_always_materialized:
  assumes "uop u = LOAD"
  shows "render_uop h lang cc u st = Inr st' \<longleftrightarrow>
    (\<exists>dt val. dtype u = Some dt \<and> LOAD_val h lang u dt st = Inr val \<and>
       st' = st\<lparr>kernel := kernel st @
                    [indent (depth st) @ var_prefix lang dt @ '' '' @ (''val'' @ str_nat (c st ''val''))
                       @ '' = '' @ val @ '';''],
               r := (r st)(u \<mapsto> ''val'' @ str_nat (c st ''val'')),
               c := (c st)(''val'' := c st ''val'' + 1)\<rparr>)"
  using assms
  by (cases "dtype u"; cases "LOAD_val h lang u (the (dtype u)) st")
     (auto simp: render_uop_def render_LOAD_def ssa_def kk_def Let_def)

theorem C6_witness:
  "uop load0 = LOAD \<and> dtype load0 = Some (plain ''float'') \<and>
   LOAD_val example_helpers OpenCLLanguage load0 (plain ''float'') mem_state = Inr ''data0[0]'' \<and>
   render_uop example_helpers OpenCLLanguage (\<lambda>_. 0) load0 mem_state
     = Inr (mem_state\<lparr>kernel := [''  float val0 = data0[0];''],
                      r := (r mem_state)(load0 \<mapsto> ''val0''),
                      c := (c mem_state)(''val'' := 1)\<rparr>) \<and>
   render_uop example_helpers OpenCLLanguage (\<lambda>_. 5) load0 mem_state
     = Inr (mem_state\<lparr>kernel := [''  float val0 = data0[0];''],
                      r := (r mem_state)(load0 \<mapsto> ''val0''),
                      c := (c mem_state)(''val'' := 1)\<rparr>)"
proof -
  have a: "uop load0 = LOAD" and b: "dtype load0 = Some (plain ''float'')"
    by (simp_all add: load0_def)
  have v: "LOAD_val example_helpers OpenCLLanguage load0 (plain ''float'') mem_state = Inr ''data0[0]''"
    by (simp add: load0_def data0_def k0_def k2_def kT_def mem_state_def all_defs lang_defs)
  have s: "kernel mem_state = []" "depth mem_state = 1" "c mem_state ''val'' = 0"
    "var_prefix OpenCLLanguage (plain ''float'') = ''float''"
    by (simp_all add: mem_state_def all_defs lang_defs)
  note w = C6_load_always_materialized [OF a, where h = example_helpers and lang = OpenCLLanguage
      and st = mem_state]
  from w [where cc = "\<lambda>_. 0"] w [where cc = "\<lambda>_. 5"] a b v s show ?thesis
    by (simp add: indent_def str_nat.simps)
qed

lemma render_STORE_iff:
  "render_STORE h lang u st = Inr st' \<longleftrightarrow>
     (\<exists>s. STORE_stmt h lang u st = Inr s \<and>
        (if 3 < length (vin u)
         then \<exists>g. r_vin st u 3 = Inr g \<and>
                st' = st\<lparr>kernel := kernel st @
                        [indent (depth st) @ render_if lang g, indent (depth st) @ s, indent (depth st) @ ''}'']\<rparr>
         else st' = st\<lparr>kernel := kernel st @ [indent (depth st) @ s]\<rparr>))"
proof (cases "py_nth (vin u) 0")
  case (Inl e)
  then show ?thesis by (simp add: render_STORE_def STORE_stmt_def)
next
  case v0: (Inr v0)
  show ?thesis
  proof (cases "dtype v0")
    case None
    with v0 show ?thesis by (simp add: render_STORE_def STORE_stmt_def)
  next
    case bd: (Some bd)
    show ?thesis
    proof (cases "py_nth (vin u) 2")
      case (Inl e)
      with v0 bd show ?thesis by (simp add: render_STORE_def STORE_stmt_def)
    next
      case v2: (Inr v2)
      show ?thesis
      proof (cases "dtype v2")
        case None
        with v0 bd v2 show ?thesis by (simp add: render_STORE_def STORE_stmt_def)
      next
        case vd: (Some vd)
        define T where "T = bindE (lookup st v0) (\<lambda>buf. bindE (lookup st v2) (\<lambda>var.
          bindE (r_vin st u 1) (\<lambda>i. bindE (py_strip_parens h i) (\<lambda>idx.
          render_store h lang buf bd var vd idx (uop v0 = DEFINE_LOCAL)))))"
        have stmt: "STORE_stmt h lang u st = T"
          using v0 bd v2 vd by (simp add: STORE_stmt_def T_def)
        have rs: "render_STORE h lang u st =
          bindE (if 3 < length (vin u)
                 then bindE (r_vin st u 3) (\<lambda>guard. Inr (kk (render_if lang guard) st))
                 else Inr st) (\<lambda>st1.
          bindE T (\<lambda>s. Inr (if 3 < length (vin u) then kk ''}'' (kk s st1) else kk s st1)))"
          using v0 bd v2 vd
          by (simp add: render_STORE_def T_def Let_def bindE_def split: sum.splits)
        show ?thesis
          unfolding rs stmt
          by (cases T; cases "r_vin st u 3") (auto simp: kk_def)
      qed
    qed
  qed
qed

text \<open>
  Claim C5.  A \<open>STORE\<close> record is rendered exactly when its statement renders and, where
  it has a fourth operand, that operand is in the symbol table.  With a fourth operand
  the lines added to the kernel are the opening line that \<open>render_if\<close> gives for the
  rendered guard, the store statement, and a closing brace, and nothing else; without
  one the store statement is the one line added.
\<close>

theorem C5_guarded_store:
  assumes "uop u = STORE"
  shows "render_uop h lang cc u st = Inr st' \<longleftrightarrow>
     (\<exists>s. STORE_stmt h lang u st = Inr s \<and>
        (if 3 < length (vin u)
         then \<exists>g. r_vin st u 3 = Inr g \<and>
                st' = st\<lparr>kernel := kernel st @
                        [indent (depth st) @ render_if lang g, indent (depth st) @ s, indent (depth st) @ ''}'']\<rparr>
         else st' = st\<lparr>kernel := kernel st @ [indent (depth st) @ s]\<rparr>))"
  using assms render_STORE_iff [of h lang u st st'] by (simp add: render_uop_def)

theorem C5_witness:
  "uop store_guarded = STORE \<and> 3 < length (vin store_guarded) \<and>
   STORE_stmt example_helpers OpenCLLanguage store_guarded mem_state = Inr ''data0[0] = 2.0f;'' \<and>
   r_vin mem_state store_guarded 3 = Inr ''true'' \<and>
   render_uop example_helpers OpenCLLanguage (\<lambda>_. 0) store_guarded mem_state
     = Inr (mem_state\<lparr>kernel := [''  if (true) {'', ''  data0[0] = 2.0f;'', ''  }'']\<rparr>) \<and>
   uop store_plain = STORE \<and> \<not> 3 < length (vin store_plain) \<and>
   STORE_stmt example_helpers OpenCLLanguage store_plain mem_state = Inr ''data0[0] = 2.0f;'' \<and>
   render_uop example_helpers OpenCLLanguage (\<lambda>_. 0) store_plain mem_state
     = Inr (mem_state\<lparr>kernel := [''  data0[0] = 2.0f;'']\<rparr>)"
proof -
  have a: "uop store_guarded = STORE" "3 < length (vin store_guarded)"
    "uop store_plain = STORE" "\<not> 3 < length (vin store_plain)"
    by (simp_all add: store_guarded_def store_plain_def)
  have v: "STORE_stmt example_helpers OpenCLLanguage store_guarded mem_state = Inr ''data0[0] = 2.0f;''"
    "STORE_stmt example_helpers OpenCLLanguage store_plain mem_state = Inr ''data0[0] = 2.0f;''"
    "r_vin mem_state store_guarded 3 = Inr ''true''"
    by (simp_all add: STORE_stmt_def store_guarded_def store_plain_def data0_def k0_def k2_def kT_def
          mem_state_def all_defs lang_defs)
  have s: "kernel mem_state = []" "depth mem_state = 1"
    "render_if OpenCLLanguage ''true'' = ''if (true) {''"
    by (simp_all add: mem_state_def all_defs lang_defs)
  from C5_guarded_store [OF a(1), where h = example_helpers and lang = OpenCLLanguage
           and st = mem_state and cc = "\<lambda>_. 0"]
       C5_guarded_store [OF a(3), where h = example_helpers and lang = OpenCLLanguage
           and st = mem_state and cc = "\<lambda>_. 0"]
       a v s
  show ?thesis by (simp add: indent_def)
qed

section \<open>Inlining and materializing arithmetic\<close>

text \<open>
  Claim C2, as stated, fails: a maximum is materialized although its use-count is 1.
  After the two constants, the record \<open>max23\<close>, used once, gets the declaration of
  \<open>alu0\<close>, and its symbol table entry is that name.
\<close>

theorem C2_counterexample:
  "child_count [k2, k3, max23, neg_max] max23 = 1 \<and>
   render_uop example_helpers OpenCLLanguage (child_count [k2, k3, max23, neg_max]) max23 consts_rendered
     = Inr (consts_rendered\<lparr>kernel := [''  float alu0 = max(2.0f,3.0f);''],
                            r := (r consts_rendered)(max23 \<mapsto> ''alu0''),
                            c := (c consts_rendered)(''alu'' := 1)\<rparr>)"
  by (simp add: k2_def k3_def max23_def neg_max_def consts_rendered_def all_defs lang_defs)

text \<open>
  Claim C2, amended.  An \<open>ALU\<close> record is rendered exactly when it has a result type, its
  expression renders and its use-count is not 0.  It is then materialized (one
  declaration line binds the expression to the next name \<open>alu<n>\<close>, and the symbol table
  entry is that name) exactly when its use-count exceeds 1 and the result type is not
  an integer type, or the operator is max, or the environment variable \<open>EXPAND_SSA\<close> is
  set; in every other case no line is emitted and the symbol table entry is the
  expression itself.
\<close>

theorem C2_alu_materialization:
  assumes "uop u = ALU"
  shows "render_uop h lang cc u st = Inr st' \<longleftrightarrow>
     (\<exists>dt val. dtype u = Some dt \<and> ALU_val h lang u dt st = Inr val \<and> cc u \<noteq> 0 \<and>
        (if (1 < cc u \<and> \<not> is_int h dt) \<or> arg u = ArgOp MAX_op \<or> getenv h ''EXPAND_SSA'' \<noteq> 0
         then st' = st\<lparr>kernel := kernel st @
                        [indent (depth st) @ var_prefix lang dt @ '' '' @ (''alu'' @ str_nat (c st ''alu''))
                           @ '' = '' @ val @ '';''],
                      r := (r st)(u \<mapsto> ''alu'' @ str_nat (c st ''alu'')),
                      c := (c st)(''alu'' := c st ''alu'' + 1)\<rparr>
         else st' = st\<lparr>r := (r st)(u \<mapsto> val)\<rparr>))"
  using assms
  by (cases "dtype u"; cases "ALU_val h lang u (the (dtype u)) st"; cases "cc u = 0")
     (auto simp: render_uop_def render_ALU_def inlines_def ssa_def kk_def Let_def)

theorem C2_witness:
  "uop add23 = ALU \<and> dtype add23 = Some (plain ''float'') \<and>
   ALU_val example_helpers OpenCLLanguage add23 (plain ''float'') consts_rendered = Inr ''(2.0f+3.0f)'' \<and>
   render_uop example_helpers OpenCLLanguage (\<lambda>_. 1) add23 consts_rendered
     = Inr (consts_rendered\<lparr>r := (r consts_rendered)(add23 \<mapsto> ''(2.0f+3.0f)'')\<rparr>) \<and>
   render_uop example_helpers OpenCLLanguage (\<lambda>_. 2) add23 consts_rendered
     = Inr (consts_rendered\<lparr>kernel := [''  float alu0 = (2.0f+3.0f);''],
                            r := (r consts_rendered)(add23 \<mapsto> ''alu0''),
                            c := (c consts_rendered)(''alu'' := 1)\<rparr>)"
proof -
  have a: "uop add23 = ALU" and b: "dtype add23 = Some (plain ''float'')"
    and o: "arg add23 \<noteq> ArgOp MAX_op"
    by (simp_all add: add23_def)
  have s: "kernel consts_rendered = []" "depth consts_rendered = 1" "c consts_rendered ''alu'' = 0"
    "var_prefix OpenCLLanguage (plain ''float'') = ''float''"
    "\<not> is_int example_helpers (plain ''float'')" "getenv example_helpers ''EXPAND_SSA'' = 0"
    by (simp_all add: consts_rendered_def all_defs lang_defs)
  note w = C2_alu_materialization [OF a, where h = example_helpers and lang = OpenCLLanguage
      and st = consts_rendered]
  from w [where cc = "\<lambda>_. 1"] w [where cc = "\<lambda>_. 2"] a b o s add23_val show ?thesis
    by (simp add: indent_def str_nat.simps)
qed

section \<open>Matrix multiply-accumulate\<close>

lemma render_WMMA_METAL:
  assumes "subscript (arg u) 0 = Inr (ArgStr ''METAL'')"
  shows "render_WMMA h lang u st = Inr st' \<longleftrightarrow>
     (\<exists>dt v0 v1 v2 v3 v4 v5. dtype u = Some dt \<and> dtype_eq dt (vec h (dtypes_float h) 2) \<and>
        r_vin (snd (ssa u ''wmma'' st)) u 0 = Inr v0 \<and> r_vin (snd (ssa u ''wmma'' st)) u 1 = Inr v1 \<and>
        r_vin (snd (ssa u ''wmma'' st)) u 2 = Inr v2 \<and> r_vin (snd (ssa u ''wmma'' st)) u 3 = Inr v3 \<and>
        r_vin (snd (ssa u ''wmma'' st)) u 4 = Inr v4 \<and> r_vin (snd (ssa u ''wmma'' st)) u 5 = Inr v5 \<and>
        st' = (snd (ssa u ''wmma'' st))\<lparr>kernel := kernel st @ map ((@) (indent (depth st)))
          [var_prefix lang dt @ '' '' @ (''wmma'' @ str_nat (c st ''wmma'')) @ '';'',
           ''{ simdgroup_float8x8 a,b,c;'',
           ''a.thread_elements()[0] = '' @ v0 @ ''; a.thread_elements()[1] = '' @ v1 @ '';'',
           ''b.thread_elements()[0] = '' @ v2 @ ''; b.thread_elements()[1] = '' @ v3 @ '';'',
           ''c.thread_elements()[0] = '' @ v4 @ ''; c.thread_elements()[1] = '' @ v5 @ '';'',
           ''simdgroup_multiply_accumulate(c, a, b, c);'',
           (''wmma'' @ str_nat (c st ''wmma'')) @ ''.x = c.thread_elements()[0]; ''
             @ (''wmma'' @ str_nat (c st ''wmma'')) @ ''.y = c.thread_elements()[1]; }'']\<rparr>)"
proof (cases "dtype u")
  case None
  with assms show ?thesis by (simp add: render_WMMA_def)
next
  case (Some dt)
  show ?thesis
  proof (cases "dtype_eq dt (vec h (dtypes_float h) 2)")
    case False
    with assms Some show ?thesis by (simp add: render_WMMA_def)
  next
    case True
    define st1 where "st1 = snd (ssa u ''wmma'' st)"
    have f: "ssa u ''wmma'' st = (''wmma'' @ str_nat (c st ''wmma''), st1)"
      by (simp add: st1_def ssa_def Let_def)
    have k: "kernel st1 = kernel st" "depth st1 = depth st"
      by (simp_all add: st1_def ssa_def Let_def)
    show ?thesis
      using assms Some True
      unfolding st1_def [symmetric]
      by (cases "r_vin st1 u 0"; cases "r_vin st1 u 1"; cases "r_vin st1 u 2";
          cases "r_vin st1 u 3"; cases "r_vin st1 u 4"; cases "r_vin st1 u 5")
         (auto simp: render_WMMA_def f k kk_def)
  qed
qed

lemma render_WMMA_HIP:
  assumes "subscript (arg u) 0 = Inr (ArgStr ''HIP'')"
  shows "render_WMMA h lang u st = Inr st' \<longleftrightarrow>
     (\<exists>dt v0 v1 v2. dtype u = Some dt \<and> dtype_eq dt (vec h (dtypes_float h) 8) \<and>
        r_vin (snd (ssa u ''wmma'' st)) u 0 = Inr v0 \<and> r_vin (snd (ssa u ''wmma'' st)) u 1 = Inr v1 \<and>
        r_vin (snd (ssa u ''wmma'' st)) u 2 = Inr v2 \<and>
        st' = (snd (ssa u ''wmma'' st))\<lparr>kernel := kernel st @ map ((@) (indent (depth st)))
          [var_prefix lang dt @ '' '' @ (''wmma'' @ str_nat (c st ''wmma''))
             @ '' = __builtin_amdgcn_wmma_f32_16x16x16_f16_w32('' @ v0 @ '', '' @ v1 @ '', '' @ v2 @ '');'']\<rparr>)"
proof (cases "dtype u")
  case None
  with assms show ?thesis by (simp add: render_WMMA_def)
next
  case (Some dt)
  show ?thesis
  proof (cases "dtype_eq dt (vec h (dtypes_float h) 8)")
    case False
    with assms Some show ?thesis by (simp add: render_WMMA_def)
  next
    case True
    define st1 where "st1 = snd (ssa u ''wmma'' st)"
    have f: "ssa u ''wmma'' st = (''wmma'' @ str_nat (c st ''wmma''), st1)"
      by (simp add: st1_def ssa_def Let_def)
    have k: "kernel st1 = kernel st" "depth st1 = depth st"
      by (simp_all add: st1_def ssa_def Let_def)
    show ?thesis
      using assms Some True
      unfolding st1_def [symmetric]
      by (cases "r_vin st1 u 0"; cases "r_vin st1 u 1"; cases "r_vin st1 u 2")
         (auto simp: render_WMMA_def f k kk_def)
  qed
qed

lemma render_WMMA_wrong_type:
  assumes "subscript (arg u) 0 = Inr tag"
  shows "tag = ArgStr ''METAL'' \<Longrightarrow> \<not> opt_dtype_eq (dtype u) (vec h (dtypes_float h) 2) \<Longrightarrow>
           render_WMMA h lang u st = Inl (AssertionError ''output dtype of METAL TC is _float2'')"
    and "tag = ArgStr ''HIP'' \<Longrightarrow> \<not> opt_dtype_eq (dtype u) (vec h (dtypes_float h) 8) \<Longrightarrow>
           render_WMMA h lang u st = Inl (AssertionError ''output dtype of HIP TC is _float8'')"
    and "tag \<noteq> ArgStr ''METAL'' \<Longrightarrow> tag \<noteq> ArgStr ''HIP'' \<Longrightarrow>
           render_WMMA h lang u st = Inl (NotImplementedError ''WMMA not implemented for'')"
  using assms
  by (auto simp: render_WMMA_def opt_dtype_eq_def split: option.splits)

text \<open>
  Claim C8.  A \<open>WMMA\<close> record whose argument has a first component \<open>tag\<close> is dispatched
  on that tag.  For \<open>METAL\<close>: a result type other than the float vector of width 2 is the
  assertion error of that branch, and the record renders exactly when the result type is
  that vector and its six operands are in the symbol table; the state then changes by
  the next name \<open>wmma<n>\<close> and the seven lines of the fixed template.  For \<open>HIP\<close>: the same
  with the float vector of width 8, three operands and the one line that calls the
  compiler builtin.  Every other tag is a \<open>NotImplementedError\<close>, which is not the
  exception of the two assertions.
\<close>

theorem C8_wmma_dispatch:
  assumes "uop u = WMMA" and "subscript (arg u) 0 = Inr tag"
  shows
  "(tag = ArgStr ''METAL'' \<longrightarrow>
      (\<not> opt_dtype_eq (dtype u) (vec h (dtypes_float h) 2) \<longrightarrow>
         render_uop h lang cc u st = Inl (AssertionError ''output dtype of METAL TC is _float2'')) \<and>
      (render_uop h lang cc u st = Inr st' \<longleftrightarrow>
         (\<exists>dt v0 v1 v2 v3 v4 v5. dtype u = Some dt \<and> dtype_eq dt (vec h (dtypes_float h) 2) \<and>
            r_vin (snd (ssa u ''wmma'' st)) u 0 = Inr v0 \<and> r_vin (snd (ssa u ''wmma'' st)) u 1 = Inr v1 \<and>
            r_vin (snd (ssa u ''wmma'' st)) u 2 = Inr v2 \<and> r_vin (snd (ssa u ''wmma'' st)) u 3 = Inr v3 \<and>
            r_vin (snd (ssa u ''wmma'' st)) u 4 = Inr v4 \<and> r_vin (snd (ssa u ''wmma'' st)) u 5 = Inr v5 \<and>
            st' = (snd (ssa u ''wmma'' st))\<lparr>kernel := kernel st @ map ((@) (indent (depth st)))
              [var_prefix lang dt @ '' '' @ (''wmma'' @ str_nat (c st ''wmma'')) @ '';'',
               ''{ simdgroup_float8x8 a,b,c;'',
               ''a.thread_elements()[0] = '' @ v0 @ ''; a.thread_elements()[1] = '' @ v1 @ '';'',
               ''b.thread_elements()[0] = '' @ v2 @ ''; b.thread_elements()[1] = '' @ v3 @ '';'',
               ''c.thread_elements()[0] = '' @ v4 @ ''; c.thread_elements()[1] = '' @ v5 @ '';'',
               ''simdgroup_multiply_accumulate(c, a, b, c);'',
               (''wmma'' @ str_nat (c st ''wmma'')) @ ''.x = c.thread_elements()[0]; ''
                 @ (''wmma'' @ str_nat (c st ''wmma'')) @ ''.y = c.thread_elements()[1]; }'']\<rparr>))) \<and>
   (tag = ArgStr ''HIP'' \<longrightarrow>
      (\<not> opt_dtype_eq (dtype u) (vec h (dtypes_float h) 8) \<longrightarrow>
         render_uop h lang cc u st = Inl (AssertionError ''output dtype of HIP TC is _float8'')) \<and>
      (render_uop h lang cc u st = Inr st' \<longleftrightarrow>
         (\<exists>dt v0 v1 v2. dtype u = Some dt \<and> dtype_eq dt (vec h (dtypes_float h) 8) \<and>
            r_vin (snd (ssa u ''wmma'' st)) u 0 = Inr v0 \<and> r_vin (snd (ssa u ''wmma'' st)) u 1 = Inr v1 \<and>
            r_vin (snd (ssa u ''wmma'' st)) u 2 = Inr v2 \<and>
            st' = (snd (ssa u ''wmma'' st))\<lparr>kernel := kernel st @ map ((@) (indent (depth st)))
              [var_prefix lang dt @ '' '' @ (''wmma'' @ str_nat (c st ''wmma''))
                 @ '' = __builtin_amdgcn_wmma_f32_16x16x16_f16_w32('' @ v0 @ '', '' @ v1 @ '', '' @ v2 @ '');'']\<rparr>))) \<and>
   (tag \<noteq> ArgStr ''METAL'' \<and> tag \<noteq> ArgStr ''HIP'' \<longrightarrow>
      render_uop h lang cc u st = Inl (NotImplementedError ''WMMA not implemented for''))"
proof -
  have d: "render_uop h lang cc u st = render_WMMA h lang u st"
    using assms(1) by (simp add: render_uop_def)
  show ?thesis
    unfolding d
    using render_WMMA_METAL [of u h lang st st'] render_WMMA_HIP [of u h lang st st']
      render_WMMA_wrong_type [OF assms(2), of h lang st] assms(2)
    by blast
qed

theorem C8_witness:
  "uop wmma_metal = WMMA \<and> subscript (arg wmma_metal) 0 = Inr (ArgStr ''METAL'') \<and>
   render_uop example_helpers MetalLanguage (\<lambda>_. 1) wmma_metal consts_rendered
     = Inr (consts_rendered
         \<lparr>kernel := [''  float2 wmma0;'',
                     ''  { simdgroup_float8x8 a,b,c;'',
                     ''  a.thread_elements()[0] = 2.0f; a.thread_elements()[1] = 3.0f;'',
                     ''  b.thread_elements()[0] = 2.0f; b.thread_elements()[1] = 3.0f;'',
                     ''  c.thread_elements()[0] = 2.0f; c.thread_elements()[1] = 3.0f;'',
                     ''  simdgroup_multiply_accumulate(c, a, b, c);'',
                     ''  wmma0.x = c.thread_elements()[0]; wmma0.y = c.thread_elements()[1]; }''],
          r := (r consts_rendered)(wmma_metal \<mapsto> ''wmma0''),
          c := (c consts_rendered)(''wmma'' := 1)\<rparr>) \<and>
   uop wmma_hip_wrong = WMMA \<and> subscript (arg wmma_hip_wrong) 0 = Inr (ArgStr ''HIP'') \<and>
   \<not> opt_dtype_eq (dtype wmma_hip_wrong) (vec example_helpers (dtypes_float example_helpers) 8) \<and>
   render_uop example_helpers HIPLanguage (\<lambda>_. 1) wmma_hip_wrong consts_rendered
     = Inl (AssertionError ''output dtype of HIP TC is _float8'') \<and>
   uop wmma_other = WMMA \<and> subscript (arg wmma_other) 0 = Inr (ArgStr ''CUDA'') \<and>
   render_uop example_helpers CUDALanguage (\<lambda>_. 1) wmma_other consts_rendered
     = Inl (NotImplementedError ''WMMA not implemented for'')"
proof -
  let ?f2 = "\<lparr>name = ''float2'', sz = 2, cls = DType\<rparr>"
  let ?st1 = "consts_rendered\<lparr>r := (r consts_rendered)(wmma_metal \<mapsto> ''wmma0''),
                              c := (c consts_rendered)(''wmma'' := 1)\<rparr>"
  have a: "uop wmma_metal = WMMA" "uop wmma_hip_wrong = WMMA" "uop wmma_other = WMMA"
    by (simp_all add: wmma_metal_def wmma_hip_wrong_def wmma_other_def)
  have t: "subscript (arg wmma_metal) 0 = Inr (ArgStr ''METAL'')"
    "subscript (arg wmma_hip_wrong) 0 = Inr (ArgStr ''HIP'')"
    "subscript (arg wmma_other) 0 = Inr (ArgStr ''CUDA'')"
    by (simp_all add: wmma_metal_def wmma_hip_wrong_def wmma_other_def all_defs)
  have d: "dtype wmma_metal = Some ?f2"
    "dtype_eq ?f2 (vec example_helpers (dtypes_float example_helpers) 2)"
    "\<not> opt_dtype_eq (dtype wmma_hip_wrong) (vec example_helpers (dtypes_float example_helpers) 8)"
    by (simp_all add: wmma_metal_def wmma_hip_wrong_def all_defs)
  have s: "snd (ssa wmma_metal ''wmma'' consts_rendered) = ?st1"
    "kernel consts_rendered = []" "depth consts_rendered = 1" "c consts_rendered ''wmma'' = 0"
    "var_prefix MetalLanguage ?f2 = ''float2''"
    by (simp_all add: consts_rendered_def all_defs lang_defs)
  have v: "r_vin ?st1 wmma_metal 0 = Inr ''2.0f''" "r_vin ?st1 wmma_metal 1 = Inr ''3.0f''"
    "r_vin ?st1 wmma_metal 2 = Inr ''2.0f''" "r_vin ?st1 wmma_metal 3 = Inr ''3.0f''"
    "r_vin ?st1 wmma_metal 4 = Inr ''2.0f''" "r_vin ?st1 wmma_metal 5 = Inr ''3.0f''"
    by (simp_all add: wmma_metal_def k2_def k3_def consts_rendered_def all_defs)
  from C8_wmma_dispatch [OF a(1) t(1), where h = example_helpers and lang = MetalLanguage
           and st = consts_rendered and cc = "\<lambda>_. 1"]
       C8_wmma_dispatch [OF a(2) t(2), where h = example_helpers and lang = HIPLanguage
           and st = consts_rendered and cc = "\<lambda>_. 1"]
       C8_wmma_dispatch [OF a(3) t(3), where h = example_helpers and lang = CUDALanguage
           and st = consts_rendered and cc = "\<lambda>_. 1"]
       a t d s v
  show ?thesis by (simp add: indent_def str_nat.simps)
qed

section \<open>What a pass leaves in the buffer list and the depth\<close>

lemma bindE_InrE:
  assumes "bindE m f = Inr y"
  obtains x where "m = Inr x" and "f x = Inr y"
  using assms by (cases m) simp_all

lemma same_frame_simps [simp]:
  "same_frame st st"
  "same_frame st (kk s st') = same_frame st st'"
  "same_frame st (snd (ssa u p st')) = same_frame st st'"
  "same_frame st (st'\<lparr>r := x\<rparr>) = same_frame st st'"
  "same_frame st (st'\<lparr>c := y\<rparr>) = same_frame st st'"
  "same_frame st (st'\<lparr>kernel := k\<rparr>) = same_frame st st'"
  "same_frame st (st'\<lparr>prekernel := pk\<rparr>) = same_frame st st'"
  "same_frame st (st'\<lparr>local_size := ls\<rparr>) = same_frame st st'"
  by (simp_all add: same_frame_def kk_def ssa_def Let_def)

lemma frame_BARRIER: "render_BARRIER lang u st = Inr st' \<Longrightarrow> same_frame st st'"
  by (auto simp: render_BARRIER_def)

lemma frame_WMMA: "render_WMMA h lang u st = Inr st' \<Longrightarrow> same_frame st st'"
  by (auto simp: render_WMMA_def split_def Let_def elim!: bindE_InrE split: if_splits option.splits)

lemma frame_ALU: "render_ALU h lang cc u st = Inr st' \<Longrightarrow> same_frame st st'"
  by (auto simp: render_ALU_def split_def Let_def elim!: bindE_InrE split: if_splits option.splits)

lemma frame_DEFINE_ACC: "render_DEFINE_ACC h lang u st = Inr st' \<Longrightarrow> same_frame st st'"
  by (auto simp: render_DEFINE_ACC_def split_def Let_def elim!: bindE_InrE split: if_splits option.splits)

lemma frame_SPECIAL: "render_SPECIAL h lang u st = Inr st' \<Longrightarrow> same_frame st st'"
  by (auto simp: render_SPECIAL_def Let_def elim!: bindE_InrE split: if_splits uarg.splits pynum.splits)

lemma frame_CONST: "render_CONST h lang u st = Inr st' \<Longrightarrow> same_frame st st'"
  by (auto simp: render_CONST_def elim!: bindE_InrE split: uarg.splits)

lemma frame_LOAD: "render_LOAD h lang u st = Inr st' \<Longrightarrow> same_frame st st'"
  by (auto simp: render_LOAD_def split_def Let_def elim!: bindE_InrE split: option.splits)

lemma frame_PHI: "render_PHI lang u st = Inr st' \<Longrightarrow> same_frame st st'"
  by (auto simp: render_PHI_def elim!: bindE_InrE)

lemma frame_STORE: "render_STORE h lang u st = Inr st' \<Longrightarrow> same_frame st st'"
  by (auto simp: render_STORE_def Let_def elim!: bindE_InrE split: option.splits if_splits)

lemma frame_CAST: "render_CAST h lang cc u dt st = Inr st' \<Longrightarrow> same_frame st st'"
  by (auto simp: render_CAST_def split_def Let_def elim!: bindE_InrE split: if_splits)

lemma frame_DEFINE_LOCAL: "render_DEFINE_LOCAL h lang u st = Inr st' \<Longrightarrow> same_frame st st'"
  by (auto simp: render_DEFINE_LOCAL_def Let_def elim!: bindE_InrE split: uarg.splits if_splits)

lemma frame_GEP: "render_GEP h lang u st = Inr st' \<Longrightarrow> same_frame st st'"
  by (auto simp: render_GEP_def elim!: bindE_InrE split: option.splits if_splits)

lemma frame_LOOP: "render_LOOP lang u st = Inr st' \<Longrightarrow> bufs st' = bufs st \<and> depth st' = depth st + 1"
  by (auto simp: render_LOOP_def split_def kk_def ssa_def Let_def elim!: bindE_InrE)

lemma frame_IF: "render_IF lang u st = Inr st' \<Longrightarrow> bufs st' = bufs st \<and> depth st' = depth st + 1"
  by (auto simp: render_IF_def kk_def elim!: bindE_InrE)

lemma frame_END: "render_END lang u st = Inr st' \<Longrightarrow> bufs st' = bufs st \<and> depth st' = depth st - 1"
  by (auto simp: render_END_def kk_def)

lemma frame_DEFINE_GLOBAL:
  "render_DEFINE_GLOBAL lang u st = Inr st' \<Longrightarrow> uop u = DEFINE_GLOBAL \<Longrightarrow>
     bufs st' = bufs st @ buffer_signature [u] \<and> depth st' = depth st"
  by (auto simp: render_DEFINE_GLOBAL_def split: option.splits uarg.splits)

lemmas frames = frame_BARRIER frame_WMMA frame_ALU frame_DEFINE_ACC frame_SPECIAL frame_CONST frame_LOAD
  frame_PHI frame_STORE frame_CAST frame_DEFINE_LOCAL frame_GEP

text \<open>
  One record: only a \<open>DEFINE_GLOBAL\<close> changes the buffer list, by its own entry at the
  end, and only \<open>LOOP\<close>, \<open>IF\<close> and \<open>END\<close> change the depth.
\<close>

lemma render_uop_frame:
  assumes "render_uop h lang cc u st = Inr st'"
  shows "bufs st' = bufs st @ buffer_signature [u] \<and>
         depth st' = depth st + (if opens u then 1 else 0) - (if closes u then 1 else 0)"
  using assms
  by (cases "uop u")
     (auto simp: render_uop_def opens_def closes_def same_frame_def
           dest: frames frame_LOOP frame_IF frame_END frame_DEFINE_GLOBAL split: if_splits)

lemma render_uops_frame:
  assumes "render_uops h lang cc uops st = Inr st'"
  shows "bufs st' = bufs st @ buffer_signature uops \<and>
         depth st' = depth st + int (length (filter opens uops)) - int (length (filter closes uops))"
  using assms
proof (induction uops arbitrary: st)
  case Nil
  then show ?case by simp
next
  case (Cons u us)
  from Cons.prems obtain st1 where 1: "render_uop h lang cc u st = Inr st1"
    and 2: "render_uops h lang cc us st1 = Inr st'"
    by (auto elim: bindE_InrE)
  from render_uop_frame [OF 1] Cons.IH [OF 2] show ?case
    by auto
qed

section \<open>The buffer signature\<close>

text \<open>
  Claim C1, as stated, fails: the second component that \<open>uops_to_cstyle\<close> returns is the
  empty dictionary, whatever the sequence declares.  For the three buffers \<open>A\<close>, \<open>B\<close>
  and \<open>C\<close> the signature is the three pairs, and the call returns the kernel text and
  no entry.
\<close>

theorem C1_counterexample:
  "buffer_signature [bufA, bufB, bufC]
     = [(''A'', ptr (plain ''float'')), (''B'', ptr (plain ''float'')), (''C'', ptr (plain ''float''))] \<and>
   uops_to_cstyle example_helpers OpenCLLanguage ''E'' [bufA, bufB, bufC]
     = Inr (''__kernel void E(__global float* A, const __global float* B, const __global float* C) {''
              @ NL @ NL @ ''}'', [])"
  by (simp add: bufA_def bufB_def bufC_def all_defs lang_defs)

text \<open>
  Claim C1, amended.  When the pass over a sequence succeeds, the buffer list it has
  built is the buffer signature of the sequence: the (name, type) pairs of its
  \<open>DEFINE_GLOBAL\<close> records in the order of the sequence, whatever else the sequence
  holds and however often a buffer is used.  \<open>uops_to_cstyle\<close> hands that list to
  \<open>render_kernel\<close>, which makes the parameters of the kernel from it, and returns the
  kernel text with an empty second component.
\<close>

theorem C1_buffer_signature_in_declaration_order:
  assumes "render_uops h lang (child_count uops) uops init_state = Inr st"
  shows "bufs st = buffer_signature uops \<and>
         uops_to_cstyle h lang function_name uops =
           bindE (render_kernel h lang function_name (kernel st) (buffer_signature uops)
                    (local_size st) (prekernel st))
             (\<lambda>prg. Inr (prg, []))"
proof -
  from render_uops_frame [OF assms] have b: "bufs st = buffer_signature uops"
    by (simp add: init_state_def)
  from assms b show ?thesis
    by (simp add: uops_to_cstyle_def)
qed

theorem C1_witness:
  "render_uops example_helpers OpenCLLanguage
       (child_count [bufA, bufB, bufC, k0, loadA, loadA', storeC])
       [bufA, bufB, bufC, k0, loadA, loadA', storeC] init_state
     = Inr (init_state
         \<lparr>kernel := [''  float val0 = A[0];'', ''  float val1 = A[0];'', ''  C[0] = val0;''],
          bufs := [(''A'', ptr (plain ''float'')), (''B'', ptr (plain ''float'')),
                   (''C'', ptr (plain ''float''))],
          c := (\<lambda>_. 0)(''val'' := 2),
          r := [bufA \<mapsto> ''A'', bufB \<mapsto> ''B'', bufC \<mapsto> ''C'', k0 \<mapsto> ''0'',
                loadA \<mapsto> ''val0'', loadA' \<mapsto> ''val1'']\<rparr>) \<and>
   buffer_signature [bufA, bufB, bufC, k0, loadA, loadA', storeC]
     = [(''A'', ptr (plain ''float'')), (''B'', ptr (plain ''float'')), (''C'', ptr (plain ''float''))] \<and>
   uops_to_cstyle example_helpers OpenCLLanguage ''E'' [bufA, bufB, bufC, k0, loadA, loadA', storeC]
     = Inr (''__kernel void E(__global float* A, const __global float* B, const __global float* C) {''
              @ NL @ ''  float val0 = A[0];'' @ NL @ ''  float val1 = A[0];'' @ NL @ ''  C[0] = val0;''
              @ NL @ ''}'', [])"
proof -
  let ?uops = "[bufA, bufB, bufC, k0, loadA, loadA', storeC]"
  let ?st = "init_state
         \<lparr>kernel := [''  float val0 = A[0];'', ''  float val1 = A[0];'', ''  C[0] = val0;''],
          bufs := [(''A'', ptr (plain ''float'')), (''B'', ptr (plain ''float'')),
                   (''C'', ptr (plain ''float''))],
          c := (\<lambda>_. 0)(''val'' := 2),
          r := [bufA \<mapsto> ''A'', bufB \<mapsto> ''B'', bufC \<mapsto> ''C'', k0 \<mapsto> ''0'',
                loadA \<mapsto> ''val0'', loadA' \<mapsto> ''val1'']\<rparr>"
  have p: "render_uops example_helpers OpenCLLanguage (child_count ?uops) ?uops init_state = Inr ?st"
    by (simp add: bufA_def bufB_def bufC_def k0_def loadA_def loadA'_def storeC_def all_defs lang_defs
          numeral_2_eq_2 [symmetric])
  have g: "buffer_signature ?uops
     = [(''A'', ptr (plain ''float'')), (''B'', ptr (plain ''float'')), (''C'', ptr (plain ''float''))]"
    by (simp add: bufA_def bufB_def bufC_def k0_def loadA_def loadA'_def storeC_def)
  have k: "render_kernel example_helpers OpenCLLanguage ''E'' (kernel ?st)
             [(''A'', ptr (plain ''float'')), (''B'', ptr (plain ''float'')), (''C'', ptr (plain ''float''))]
             (local_size ?st) (prekernel ?st)
     = Inr (''__kernel void E(__global float* A, const __global float* B, const __global float* C) {''
              @ NL @ ''  float val0 = A[0];'' @ NL @ ''  float val1 = A[0];'' @ NL @ ''  C[0] = val0;''
              @ NL @ ''}'')"
    by (simp add: all_defs lang_defs)
  from C1_buffer_signature_in_declaration_order [OF p, where function_name = "''E''"] p g k
  show ?thesis by simp
qed

section \<open>Scopes\<close>

text \<open>
  Claim C4, as stated, fails: no branch of the dispatch and no step after the pass
  compares the records that open a scope with those that close one.  An \<open>END\<close> with
  nothing open renders, as a closing brace at depth 0, and so does an \<open>IF\<close> that is
  never closed; in both cases \<open>uops_to_cstyle\<close> returns a kernel text.
\<close>

theorem C4_counterexample:
  "uops_to_cstyle example_helpers OpenCLLanguage ''E'' [end_only]
     = Inr (''__kernel void E() {'' @ NL @ ''}'' @ NL @ ''}'', []) \<and>
   uops_to_cstyle example_helpers OpenCLLanguage ''E'' [kT, if_only]
     = Inr (''__kernel void E() {'' @ NL @ ''  if (true) {'' @ NL @ ''}'', [])"
  by (simp add: end_only_def kT_def if_only_def all_defs lang_defs)

text \<open>
  Claim C4, amended.  The renderer keeps a depth and checks nothing about it.  An \<open>END\<close>
  record always renders, whatever is open: it lowers the depth by one and emits a
  closing brace at the new depth.  After a pass that succeeds the depth is the depth at
  its start, plus the number of \<open>LOOP\<close> and \<open>IF\<close> records, minus the number of \<open>END\<close>
  records of the sequence; it is the same as at the start exactly when the two numbers
  agree, and no error depends on it.
\<close>

theorem C4_scopes_are_counted_not_checked:
  "(uop u = END \<longrightarrow> render_uop h lang cc u st = Inr (kk ''}'' (st\<lparr>depth := depth st - 1\<rparr>))) \<and>
   (render_uops h lang cc uops st = Inr st' \<longrightarrow>
      depth st' = depth st + int (length (filter opens uops)) - int (length (filter closes uops)))"
proof (intro conjI impI)
  assume "uop u = END"
  then show "render_uop h lang cc u st = Inr (kk ''}'' (st\<lparr>depth := depth st - 1\<rparr>))"
    by (simp add: render_uop_def render_END_def)
next
  assume "render_uops h lang cc uops st = Inr st'"
  from render_uops_frame [OF this]
  show "depth st' = depth st + int (length (filter opens uops)) - int (length (filter closes uops))"
    by simp
qed

theorem C4_witness:
  "uop end_only = END \<and>
   render_uop example_helpers OpenCLLanguage (\<lambda>_. 0) end_only init_state
     = Inr (init_state\<lparr>kernel := [''}''], depth := 0\<rparr>) \<and>
   render_uops example_helpers OpenCLLanguage (\<lambda>_. 0) [kT, if_only] init_state
     = Inr (init_state\<lparr>kernel := [''  if (true) {''], depth := 2, r := [kT \<mapsto> ''true'']\<rparr>) \<and>
   length (filter opens [kT, if_only]) = 1 \<and> length (filter closes [kT, if_only]) = 0 \<and>
   depth (init_state\<lparr>kernel := [''  if (true) {''], depth := 2, r := [kT \<mapsto> ''true'']\<rparr>)
     = depth init_state + 1"
proof -
  let ?st = "init_state\<lparr>kernel := [''  if (true) {''], depth := 2, r := [kT \<mapsto> ''true'']\<rparr>"
  have a: "uop end_only = END"
    by (simp add: end_only_def)
  have p: "render_uops example_helpers OpenCLLanguage (\<lambda>_. 0) [kT, if_only] init_state = Inr ?st"
    by (simp add: kT_def if_only_def all_defs lang_defs)
  have n: "length (filter opens [kT, if_only]) = 1" "length (filter closes [kT, if_only]) = 0"
    by (simp_all add: opens_def closes_def kT_def if_only_def)
  have e: "kk ''}'' (init_state\<lparr>depth := depth init_state - 1\<rparr>) = init_state\<lparr>kernel := [''}''], depth := 0\<rparr>"
    by (simp add: kk_def indent_def init_state_def)
  from C4_scopes_are_counted_not_checked [where u = end_only and h = example_helpers
         and lang = OpenCLLanguage and cc = "\<lambda>_. 0" and st = init_state
         and uops = "[kT, if_only]" and st' = ?st] a p n e
  show ?thesis by simp
qed

end
